theory Spec2Isabelle
  imports Complex_Main "HOL-Library.Char_ord" "HOL-Library.List_Lexorder"
begin

section \<open>Python values used by the notebooks\<close>

text \<open>
  The notebooks are Python 3 cells. The objects that occur as dictionary keys in
  the examples are strings and integers (pin numbers such as \<open>13\<close>, pin names such as
  \<open>'A0'\<close>); \<open>None\<close> is added as a third hashable object that is neither. Python
  compares such keys by value, and no string equals an integer or \<open>None\<close>, which is
  the equality of this datatype.
\<close>

datatype pykey = PStr string | PInt int | PNone

datatype pyerr = KeyError pykey | IndexError | ValueError string | OverflowError | TypeError

text \<open>\<open>isinstance(key, str)\<close>.\<close>

fun is_str :: "pykey \<Rightarrow> bool" where
  "is_str (PStr s) = True"
| "is_str (PInt i) = False"
| "is_str PNone = False"

text \<open>
  \<open>str(n)\<close> for an integer: the decimal digits, most significant first, with a
  leading minus sign for a negative number.
\<close>

definition digit_char :: "nat \<Rightarrow> char" where
  "digit_char d = ''0123456789'' ! d"

function str_nat :: "nat \<Rightarrow> string" where
  "str_nat n = (if n < 10 then [digit_char n] else str_nat (n div 10) @ [digit_char (n mod 10)])"
  by pat_completeness auto
termination
  by (relation "measure id") auto

declare str_nat.simps [simp del]

definition str_int :: "int \<Rightarrow> string" where
  "str_int i = (if i < 0 then CHR ''-'' # str_nat (nat (- i)) else str_nat (nat i))"

text \<open>\<open>str(key)\<close>: a string is returned as it is.\<close>

fun py_str :: "pykey \<Rightarrow> string" where
  "py_str (PStr s) = s"
| "py_str (PInt i) = str_int i"
| "py_str PNone = ''None''"

section \<open>StrKeyDict (Example 3-6)\<close>

text \<open>
  \<^verbatim>\<open>
  class StrKeyDict(collections.UserDict):
      def __missing__(self, key):
          if isinstance(key, str):
              raise KeyError(key)
          return self[str(key)]
      def __contains__(self, key):
          return str(key) in self.data
      def __setitem__(self, key, item):
          self.data[str(key)] = item
  \<close>
  The instance holds one attribute, the plain dictionary \<open>data\<close>. The methods the class
  inherits are those of \<open>collections.UserDict\<close> and \<open>MutableMapping\<close>:
  \<^verbatim>\<open>
  def __init__(self, dict=None, **kwargs):
      self.data = {}
      if dict is not None: self.update(dict)
      if len(kwargs): self.update(kwargs)
  def __getitem__(self, key):
      if key in self.data: return self.data[key]
      if hasattr(self.__class__, "__missing__"):
          return self.__class__.__missing__(self, key)
      raise KeyError(key)
  def update(self, other, **kwds):
      for key, value in other: self[key] = value
      for key, value in kwds.items(): self[key] = value
  \<close>
\<close>

record 'v StrKeyDict =
  data :: "pykey \<rightharpoonup> 'v"

text \<open>
  \<open>d[key]\<close> enters \<open>__getitem__\<close>, which on a miss calls \<open>__missing__\<close>, which for a
  key that is not a string indexes \<open>self\<close> again. Each call is made inside the previous
  one, so the list of calls made is the call stack at its deepest point; the functions
  return it beside the result (\<open>Inl\<close> is the exception raised).
\<close>

datatype call = GetItem pykey | Missing pykey

function StrKeyDict_getitem_run :: "'v StrKeyDict \<Rightarrow> pykey \<Rightarrow> call list \<times> (pyerr + 'v)"
  and StrKeyDict_missing_run :: "'v StrKeyDict \<Rightarrow> pykey \<Rightarrow> call list \<times> (pyerr + 'v)"
where
  "StrKeyDict_getitem_run d key =
     (case data d key of
        Some v \<Rightarrow> ([GetItem key], Inr v)
      | None \<Rightarrow> (case StrKeyDict_missing_run d key of (tr, r) \<Rightarrow> (GetItem key # tr, r)))"
| "StrKeyDict_missing_run d key =
     (if is_str key then ([Missing key], Inl (KeyError key))
      else (case StrKeyDict_getitem_run d (PStr (py_str key)) of (tr, r) \<Rightarrow> (Missing key # tr, r)))"
  by pat_completeness auto
termination
  by (relation "measure (\<lambda>x. case x of
        Inl (d, key) \<Rightarrow> (if is_str key then 1 else 3)
      | Inr (d, key) \<Rightarrow> (if is_str key then 0 else 2))") auto

declare StrKeyDict_getitem_run.simps [simp del] StrKeyDict_missing_run.simps [simp del]

definition StrKeyDict_getitem :: "'v StrKeyDict \<Rightarrow> pykey \<Rightarrow> pyerr + 'v" where
  "StrKeyDict_getitem d key = snd (StrKeyDict_getitem_run d key)"

definition StrKeyDict_getitem_calls :: "'v StrKeyDict \<Rightarrow> pykey \<Rightarrow> call list" where
  "StrKeyDict_getitem_calls d key = fst (StrKeyDict_getitem_run d key)"

fun is_getitem :: "call \<Rightarrow> bool" where
  "is_getitem (GetItem k) = True"
| "is_getitem (Missing k) = False"

text \<open>\<open>key in d\<close>; no branch of it raises.\<close>

definition StrKeyDict_contains :: "'v StrKeyDict \<Rightarrow> pykey \<Rightarrow> pyerr + bool" where
  "StrKeyDict_contains d key = Inr (data d (PStr (py_str key)) \<noteq> None)"

text \<open>\<open>d[key] = item\<close>.\<close>

definition StrKeyDict_setitem :: "'v StrKeyDict \<Rightarrow> pykey \<Rightarrow> 'v \<Rightarrow> 'v StrKeyDict" where
  "StrKeyDict_setitem d key item = d\<lparr>data := (data d)(PStr (py_str key) \<mapsto> item)\<rparr>"

text \<open>
  \<open>d.update(other, **kwds)\<close>: \<open>other\<close> is given as the list of the pairs it yields,
  \<open>kwds\<close> as the list of the keyword arguments, whose names are strings.
\<close>

fun update_pairs :: "'v StrKeyDict \<Rightarrow> (pykey \<times> 'v) list \<Rightarrow> 'v StrKeyDict" where
  "update_pairs d [] = d"
| "update_pairs d ((key, v) # rest) = update_pairs (StrKeyDict_setitem d key v) rest"

definition StrKeyDict_update :: "'v StrKeyDict \<Rightarrow> (pykey \<times> 'v) list \<Rightarrow> (string \<times> 'v) list \<Rightarrow> 'v StrKeyDict" where
  "StrKeyDict_update d other kwds = update_pairs (update_pairs d other) (map (\<lambda>(n, v). (PStr n, v)) kwds)"

text \<open>\<open>StrKeyDict(dict, **kwargs)\<close>; \<open>dict=None\<close> is \<open>None\<close> here.\<close>

definition StrKeyDict_init :: "(pykey \<times> 'v) list option \<Rightarrow> (string \<times> 'v) list \<Rightarrow> 'v StrKeyDict" where
  "StrKeyDict_init dict kwargs =
     (let self = \<lparr>data = Map.empty\<rparr>;
          self = (case dict of None \<Rightarrow> self | Some other \<Rightarrow> StrKeyDict_update self other []);
          self = (if length kwargs \<noteq> 0 then StrKeyDict_update self [] kwargs else self)
      in self)"

text \<open>A sequence of item assignments and updates applied to an instance.\<close>

datatype 'v mutation = SetItem pykey 'v | Update "(pykey \<times> 'v) list" "(string \<times> 'v) list"

fun apply_mutation :: "'v StrKeyDict \<Rightarrow> 'v mutation \<Rightarrow> 'v StrKeyDict" where
  "apply_mutation d (SetItem key v) = StrKeyDict_setitem d key v"
| "apply_mutation d (Update other kwds) = StrKeyDict_update d other kwds"

definition run_mutations :: "'v StrKeyDict \<Rightarrow> 'v mutation list \<Rightarrow> 'v StrKeyDict" where
  "run_mutations d ms = foldl apply_mutation d ms"

text \<open>The invariant: every key of \<open>data\<close> is a string.\<close>

definition str_keyed :: "'v StrKeyDict \<Rightarrow> bool" where
  "str_keyed d = (\<forall>key. data d key \<noteq> None \<longrightarrow> is_str key)"

section \<open>FrenchDeck (Chapter 1)\<close>

text \<open>
  \<^verbatim>\<open>
  Card = collections.namedtuple('Card', ['rank', 'suit'])

  class FrenchDeck:
      ranks = [str(n) for n in range(2, 11)] + list('JQKA')
      suits = 'spades diamonds clubs hearts'.split()
      def __init__(self):
          self._cards = [Card(rank, suit) for suit in self.suits for rank in self.ranks]
      def __len__(self):
          return len(self._cards)
      def __getitem__(self, position):
          return self._cards[position]
  \<close>
\<close>

record Card =
  rank :: string
  suit :: string

text \<open>
  \<open>s.split()\<close>: the maximal runs of characters that are not whitespace. The ASCII
  whitespace of Python is the blank and the control characters 9 to 13 and 28 to 31.
\<close>

definition is_space :: "char \<Rightarrow> bool" where
  "is_space c =
     (c = CHR '' '' \<or> (9 \<le> (of_char c :: nat) \<and> (of_char c :: nat) \<le> 13)
      \<or> (28 \<le> (of_char c :: nat) \<and> (of_char c :: nat) \<le> 31))"

fun split_from :: "string \<Rightarrow> string \<Rightarrow> string list" where
  "split_from cur [] = (if cur = [] then [] else [cur])"
| "split_from cur (c # cs) =
     (if is_space c then (if cur = [] then split_from [] cs else cur # split_from [] cs)
      else split_from (cur @ [c]) cs)"

definition split :: "string \<Rightarrow> string list" where
  "split s = split_from [] s"

definition ranks :: "string list" where
  "ranks = map (\<lambda>n. str_int (int n)) [2..<11] @ map (\<lambda>c. [c]) ''JQKA''"

definition suits :: "string list" where
  "suits = split ''spades diamonds clubs hearts''"

record FrenchDeck =
  cards :: "Card list"

definition FrenchDeck_init :: "FrenchDeck" where
  "FrenchDeck_init = \<lparr>cards = concat (map (\<lambda>suit. map (\<lambda>rank. \<lparr>rank = rank, suit = suit\<rparr>) ranks) suits)\<rparr>"

text \<open>
  \<open>xs[position]\<close> on a Python list, for an integer position: a negative position counts
  from the end, and a position outside the list raises \<open>IndexError\<close>. (A position can
  also be a slice, as in \<open>deck[:3]\<close>; the positions here are the integers.)
\<close>

definition list_getitem :: "'a list \<Rightarrow> int \<Rightarrow> pyerr + 'a" where
  "list_getitem xs position =
     (let n = int (length xs);
          i = (if position < 0 then position + n else position)
      in if 0 \<le> i \<and> i < n then Inr (xs ! nat i) else Inl IndexError)"

text \<open>
  The two methods take the instance and return their result together with the instance
  as the call leaves it.
\<close>

definition FrenchDeck_len :: "FrenchDeck \<Rightarrow> int \<times> FrenchDeck" where
  "FrenchDeck_len self = (int (length (cards self)), self)"

definition FrenchDeck_getitem :: "FrenchDeck \<Rightarrow> int \<Rightarrow> (pyerr + Card) \<times> FrenchDeck" where
  "FrenchDeck_getitem self position = (list_getitem (cards self) position, self)"

datatype deck_call = Len | GetItemAt int

datatype deck_result = LenResult int | ItemResult "pyerr + Card"

fun deck_exec :: "FrenchDeck \<Rightarrow> deck_call \<Rightarrow> deck_result \<times> FrenchDeck" where
  "deck_exec self Len = (case FrenchDeck_len self of (n, self') \<Rightarrow> (LenResult n, self'))"
| "deck_exec self (GetItemAt position) =
     (case FrenchDeck_getitem self position of (r, self') \<Rightarrow> (ItemResult r, self'))"

subsection \<open>spades_high\<close>

text \<open>
  \<^verbatim>\<open>
  suit_values = dict(spades=3, hearts=2, diamonds=1, clubs=0)

  def spades_high(card):
      rank_value = FrenchDeck.ranks.index(card.rank)
      return rank_value * len(suit_values) + suit_values[card.suit]
  \<close>
  \<open>list.index\<close> raises \<open>ValueError\<close> for a value that is not in the list, and indexing
  the dictionary raises \<open>KeyError\<close> for a suit that is not a key.
\<close>

definition suit_values :: "(string \<times> int) list" where
  "suit_values = [(''spades'', 3), (''hearts'', 2), (''diamonds'', 1), (''clubs'', 0)]"

fun list_index :: "'a list \<Rightarrow> 'a \<Rightarrow> nat option" where
  "list_index [] v = None"
| "list_index (u # us) v = (if u = v then Some 0 else map_option Suc (list_index us v))"

definition spades_high :: "Card \<Rightarrow> pyerr + int" where
  "spades_high c =
     (case list_index ranks (rank c) of
        None \<Rightarrow> Inl (ValueError (rank c))
      | Some rank_value \<Rightarrow>
          (case map_of suit_values (suit c) of
             None \<Rightarrow> Inl (KeyError (PStr (suit c)))
           | Some suit_value \<Rightarrow> Inr (int rank_value * int (length suit_values) + suit_value)))"

section \<open>Vector (Chapter 1)\<close>

text \<open>
  \<^verbatim>\<open>
  class Vector:
      def __init__(self, x = 0, y = 0):
          self.x = x
          self.y = y
      def __abs__(self):
          return hypot(self.x, self.y)
      def __bool__(self):
          return bool(abs(self))
      def __add__(self, other):
          x = self.x + other.x
          y = self.y + other.y
          return Vector(x, y)
      def __mul__(self, scalar):
          return Vector(self.x * scalar, self.y * scalar)
  \<close>
  Vectors are objects: a store holds the fields of every vector created so far, a
  reference is a position in the store, and \<open>Vector(x, y)\<close> adds a new object to it
  (\<open>__init__\<close> is given both arguments, as \<open>__add__\<close> and \<open>__mul__\<close> give them).
  The components are of any type with \<open>+\<close> and \<open>*\<close>. \<open>math.hypot\<close> is a function of the
  standard library: it is a parameter here, returning a float (of a type \<open>'f\<close> with a zero)
  or raising, as it does with \<open>OverflowError\<close> for an integer too large for a float.
  \<open>bool\<close> of a float is \<open>False\<close> for a float equal to zero and \<open>True\<close> for any other.
\<close>

record 'a Vector =
  Vector_x :: 'a
  Vector_y :: 'a

type_synonym ref = nat

definition Vector_init :: "'a Vector list \<Rightarrow> 'a \<Rightarrow> 'a \<Rightarrow> ref \<times> 'a Vector list" where
  "Vector_init store x y = (length store, store @ [\<lparr>Vector_x = x, Vector_y = y\<rparr>])"

definition Vector_abs ::
  "('a \<Rightarrow> 'a \<Rightarrow> pyerr + 'f) \<Rightarrow> 'a Vector list \<Rightarrow> ref \<Rightarrow> (pyerr + 'f) \<times> 'a Vector list" where
  "Vector_abs hypot store self = (hypot (Vector_x (store ! self)) (Vector_y (store ! self)), store)"

definition Vector_bool ::
  "('a \<Rightarrow> 'a \<Rightarrow> pyerr + 'f::zero) \<Rightarrow> 'a Vector list \<Rightarrow> ref \<Rightarrow> (pyerr + bool) \<times> 'a Vector list" where
  "Vector_bool hypot store self =
     (case Vector_abs hypot store self of
        (Inl e, store') \<Rightarrow> (Inl e, store')
      | (Inr a, store') \<Rightarrow> (Inr (a \<noteq> 0), store'))"

definition Vector_add :: "('a::plus) Vector list \<Rightarrow> ref \<Rightarrow> ref \<Rightarrow> ref \<times> 'a Vector list" where
  "Vector_add store self other =
     (let x = Vector_x (store ! self) + Vector_x (store ! other);
          y = Vector_y (store ! self) + Vector_y (store ! other)
      in Vector_init store x y)"

definition Vector_mul :: "('a::times) Vector list \<Rightarrow> ref \<Rightarrow> 'a \<Rightarrow> ref \<times> 'a Vector list" where
  "Vector_mul store self scalar =
     Vector_init store (Vector_x (store ! self) * scalar) (Vector_y (store ! self) * scalar)"

text \<open>
  The exact value of \<open>hypot\<close> on integers, for running the methods on the vectors of the
  notebook; the float that Python returns is this number rounded.
\<close>

definition hypot_exact :: "int \<Rightarrow> int \<Rightarrow> pyerr + real" where
  "hypot_exact a b = Inr (sqrt (real_of_int (a * a + b * b)))"


section \<open>The word-index scripts (Examples 3-2, 3-4 and 3-5)\<close>

text \<open>
  The three scripts read a text file line by line, find the words of each line with
  \<open>WORD_RE = re.compile('\w+')\<close>, record for each word the list of its locations
  \<open>(line_no, column_no)\<close> in the dictionary \<open>index\<close>, and print the index sorted with
  \<open>key=str.upper\<close>. They differ in how the list of a word is fetched and stored.

  A character is a \<open>char\<close>. \<open>\w\<close> holds of the ASCII letters, the digits and the
  underscore, and \<open>str.upper\<close> changes the ASCII lower-case letters; the other
  characters are not word characters and are left as they are by \<open>upper\<close>.
\<close>

definition is_word_char :: "char \<Rightarrow> bool" where
  "is_word_char c =
     ((CHR ''a'' \<le> c \<and> c \<le> CHR ''z'') \<or> (CHR ''A'' \<le> c \<and> c \<le> CHR ''Z'')
      \<or> (CHR ''0'' \<le> c \<and> c \<le> CHR ''9'') \<or> c = CHR ''_'')"

definition upper_char :: "char \<Rightarrow> char" where
  "upper_char c = (if CHR ''a'' \<le> c \<and> c \<le> CHR ''z'' then char_of (of_char c - (32::nat)) else c)"

definition upper :: "string \<Rightarrow> string" where
  "upper s = map upper_char s"

text \<open>
  \<open>WORD_RE.finditer(line)\<close>: the maximal runs of word characters from left to right,
  each with \<open>match.group()\<close> and \<open>match.start()\<close>. The first argument is the offset of
  the text that is left.
\<close>

function finditer_from :: "nat \<Rightarrow> string \<Rightarrow> (string \<times> nat) list" where
  "finditer_from pos [] = []"
| "finditer_from pos (c # cs) =
     (if is_word_char c
      then (takeWhile is_word_char (c # cs), pos)
             # finditer_from (pos + length (takeWhile is_word_char (c # cs)))
                 (dropWhile is_word_char cs)
      else finditer_from (Suc pos) cs)"
  by pat_completeness auto
termination
  by (relation "measure (\<lambda>(pos, s). length s)") (auto simp: length_dropWhile_le less_Suc_eq_le)

definition finditer :: "string \<Rightarrow> (string \<times> nat) list" where
  "finditer line = finditer_from 0 line"

text \<open>\<open>enumerate(fp, 1)\<close>, the file being the list of its lines.\<close>

definition enumerate :: "'a list \<Rightarrow> nat \<Rightarrow> (nat \<times> 'a) list" where
  "enumerate xs start = zip [start..<start + length xs] xs"

subsection \<open>The dictionary and the lists it refers to\<close>

text \<open>
  The values of \<open>index\<close> are list objects, which \<open>append\<close> changes in place. The state
  of a script is the dictionary, as the list of its items in the order of insertion with
  a reference for each value, and the store of the list objects created so far.
\<close>

type_synonym location = "nat \<times> nat"

record state =
  index :: "(string \<times> ref) list"
  heap :: "location list list"

definition initial :: state where
  "initial = \<lparr>index = [], heap = []\<rparr>"

text \<open>The expression \<open>[]\<close>, and the call \<open>list()\<close>: a new empty list object.\<close>

definition new_list :: "state \<Rightarrow> ref \<times> state" where
  "new_list st = (length (heap st), st\<lparr>heap := heap st @ [[]]\<rparr>)"

text \<open>\<open>occurrences.append(location)\<close>.\<close>

definition list_append :: "state \<Rightarrow> ref \<Rightarrow> location \<Rightarrow> state" where
  "list_append st r location = st\<lparr>heap := (heap st)[r := heap st ! r @ [location]]\<rparr>"

text \<open>\<open>index[word]\<close> on a plain dictionary.\<close>

definition dict_getitem :: "state \<Rightarrow> string \<Rightarrow> (pyerr + ref) \<times> state" where
  "dict_getitem st k =
     (case map_of (index st) k of
        None \<Rightarrow> (Inl (KeyError (PStr k)), st)
      | Some r \<Rightarrow> (Inr r, st))"

text \<open>\<open>index.get(word, default)\<close>.\<close>

definition dict_get :: "state \<Rightarrow> string \<Rightarrow> ref \<Rightarrow> ref \<times> state" where
  "dict_get st k dflt = (case map_of (index st) k of None \<Rightarrow> (dflt, st) | Some r \<Rightarrow> (r, st))"

text \<open>
  \<open>index[word] = value\<close>: the value of a key that is present is replaced where it
  stands, a new key goes to the end.
\<close>

fun store_item :: "('k \<times> 'v) list \<Rightarrow> 'k \<Rightarrow> 'v \<Rightarrow> ('k \<times> 'v) list" where
  "store_item [] k v = [(k, v)]"
| "store_item ((k', v') # items) k v =
     (if k' = k then (k, v) # items else (k', v') # store_item items k v)"

definition dict_setitem :: "state \<Rightarrow> string \<Rightarrow> ref \<Rightarrow> state" where
  "dict_setitem st k v = st\<lparr>index := store_item (index st) k v\<rparr>"

text \<open>\<open>index.setdefault(word, default)\<close>.\<close>

definition dict_setdefault :: "state \<Rightarrow> string \<Rightarrow> ref \<Rightarrow> ref \<times> state" where
  "dict_setdefault st k dflt =
     (case map_of (index st) k of
        None \<Rightarrow> (dflt, dict_setitem st k dflt)
      | Some r \<Rightarrow> (r, st))"

text \<open>
  \<open>index[word]\<close> on a \<open>collections.defaultdict\<close>: on a missing key the
  \<open>default_factory\<close> is called, its result is inserted under the key and returned;
  without a \<open>default_factory\<close> the \<open>KeyError\<close> is raised.
\<close>

definition defaultdict_getitem ::
  "(state \<Rightarrow> ref \<times> state) option \<Rightarrow> state \<Rightarrow> string \<Rightarrow> (pyerr + ref) \<times> state" where
  "defaultdict_getitem default_factory st k =
     (case map_of (index st) k of
        Some r \<Rightarrow> (Inr r, st)
      | None \<Rightarrow>
          (case default_factory of
             None \<Rightarrow> (Inl (KeyError (PStr k)), st)
           | Some factory \<Rightarrow> (case factory st of (r, st') \<Rightarrow> (Inr r, dict_setitem st' k r))))"

subsection \<open>Building the index\<close>

text \<open>
  Example 3-2:
  \<^verbatim>\<open>
  occurrences = index.get(word, [])
  occurrences.append(location)
  index[word] = occurrences
  \<close>
\<close>

definition body_get :: "state \<Rightarrow> nat \<Rightarrow> string \<times> nat \<Rightarrow> pyerr + state" where
  "body_get st line_no match =
     (let word = fst match;
          column_no = snd match + 1;
          location = (line_no, column_no);
          (dflt, st) = new_list st;
          (occurrences, st) = dict_get st word dflt;
          st = list_append st occurrences location
      in Inr (dict_setitem st word occurrences))"

text \<open>
  Example 3-4:
  \<^verbatim>\<open>
  index.setdefault(word, []).append(location)
  \<close>
\<close>

definition body_setdefault :: "state \<Rightarrow> nat \<Rightarrow> string \<times> nat \<Rightarrow> pyerr + state" where
  "body_setdefault st line_no match =
     (let word = fst match;
          column_no = snd match + 1;
          location = (line_no, column_no);
          (dflt, st) = new_list st;
          (occurrences, st) = dict_setdefault st word dflt
      in Inr (list_append st occurrences location))"

text \<open>
  Example 3-5, with \<open>index = collections.defaultdict(list)\<close>:
  \<^verbatim>\<open>
  index[word].append(location)
  \<close>
  The indexing is the one operation of the three loop bodies that has a raising branch.
\<close>

definition body_defaultdict :: "state \<Rightarrow> nat \<Rightarrow> string \<times> nat \<Rightarrow> pyerr + state" where
  "body_defaultdict st line_no match =
     (let word = fst match;
          column_no = snd match + 1;
          location = (line_no, column_no)
      in case defaultdict_getitem (Some new_list) st word of
           (Inl e, st) \<Rightarrow> Inl e
         | (Inr occurrences, st) \<Rightarrow> Inr (list_append st occurrences location))"

text \<open>
  \<^verbatim>\<open>
  for line_no, line in enumerate(fp, 1):
      for match in WORD_RE.finditer(line):
          ...
  \<close>
  A \<open>for\<close> loop runs its body on each element in turn and stops at the first
  exception.
\<close>

fun for_each :: "('s \<Rightarrow> 'a \<Rightarrow> pyerr + 's) \<Rightarrow> 's \<Rightarrow> 'a list \<Rightarrow> pyerr + 's" where
  "for_each body st [] = Inr st"
| "for_each body st (x # xs) =
     (case body st x of Inl e \<Rightarrow> Inl e | Inr st' \<Rightarrow> for_each body st' xs)"

definition build ::
  "(state \<Rightarrow> nat \<Rightarrow> string \<times> nat \<Rightarrow> pyerr + state) \<Rightarrow> string list \<Rightarrow> pyerr + state" where
  "build body fp =
     for_each (\<lambda>st (line_no, line). for_each (\<lambda>st match. body st line_no match) st (finditer line))
       initial (enumerate fp 1)"

subsection \<open>Printing the index\<close>

text \<open>
  \<^verbatim>\<open>
  for word in sorted(index, key=str.upper):
      print(word, index[word])
  \<close>
  \<open>sorted\<close> is stable, as \<open>sort_key\<close> is, and iterating over the dictionary gives its
  keys in the order of insertion. \<open>print\<close> writes the word, a blank and the \<open>repr\<close> of the
  list. The output of a script is the list of the lines printed and the exception that
  ended it, if any.
\<close>

fun join :: "string \<Rightarrow> string list \<Rightarrow> string" where
  "join sep [] = []"
| "join sep [s] = s"
| "join sep (s # t # rest) = s @ sep @ join sep (t # rest)"

definition repr_location :: "location \<Rightarrow> string" where
  "repr_location loc = ''('' @ str_nat (fst loc) @ '', '' @ str_nat (snd loc) @ '')''"

definition repr_list :: "location list \<Rightarrow> string" where
  "repr_list locs = ''['' @ join '', '' (map repr_location locs) @ '']''"

fun print_loop ::
  "(state \<Rightarrow> string \<Rightarrow> (pyerr + ref) \<times> state) \<Rightarrow> state \<Rightarrow> string list \<Rightarrow> string list \<times> pyerr option"
where
  "print_loop lookup st [] = ([], None)"
| "print_loop lookup st (word # rest) =
     (case lookup st word of
        (Inl e, st') \<Rightarrow> ([], Some e)
      | (Inr r, st') \<Rightarrow>
          (case print_loop lookup st' rest of
             (out, e) \<Rightarrow> ((word @ '' '' @ repr_list (heap st' ! r)) # out, e)))"

definition print_index ::
  "(state \<Rightarrow> string \<Rightarrow> (pyerr + ref) \<times> state) \<Rightarrow> state \<Rightarrow> string list \<times> pyerr option" where
  "print_index lookup st = print_loop lookup st (sort_key upper (map fst (index st)))"

text \<open>
  What a script's dictionary holds: each word with the contents of its list, in the
  order of the dictionary.
\<close>

definition contents :: "state \<Rightarrow> (string \<times> location list) list" where
  "contents st = map (\<lambda>(word, r). (word, heap st ! r)) (index st)"

definition script ::
  "(state \<Rightarrow> nat \<Rightarrow> string \<times> nat \<Rightarrow> pyerr + state) \<Rightarrow>
   (state \<Rightarrow> string \<Rightarrow> (pyerr + ref) \<times> state) \<Rightarrow> string list \<Rightarrow> string list \<times> pyerr option" where
  "script body lookup fp =
     (case build body fp of Inl e \<Rightarrow> ([], Some e) | Inr st \<Rightarrow> print_index lookup st)"

definition index_get :: "string list \<Rightarrow> string list \<times> pyerr option" where
  "index_get fp = script body_get dict_getitem fp"

definition index_setdefault :: "string list \<Rightarrow> string list \<times> pyerr option" where
  "index_setdefault fp = script body_setdefault dict_getitem fp"

definition index_defaultdict :: "string list \<Rightarrow> string list \<times> pyerr option" where
  "index_defaultdict fp = script body_defaultdict (defaultdict_getitem (Some new_list)) fp"

text \<open>The dictionary a script has built when its first loop ends.\<close>

definition built_index ::
  "(state \<Rightarrow> nat \<Rightarrow> string \<times> nat \<Rightarrow> pyerr + state) \<Rightarrow> string list \<Rightarrow> pyerr + (string \<times> location list) list" where
  "built_index body fp = (case build body fp of Inl e \<Rightarrow> Inl e | Inr st \<Rightarrow> Inr (contents st))"


subsection \<open>The index as a value\<close>

text \<open>
  For comparison with the three scripts: the index built without list objects, each
  word keeping the list of its locations itself. A location is added to the list of its
  word, which is the empty list for a word seen for the first time.
\<close>

definition record_occurrence ::
  "(string \<times> location list) list \<Rightarrow> string \<Rightarrow> location \<Rightarrow> (string \<times> location list) list" where
  "record_occurrence idx word location =
     store_item idx word ((case map_of idx word of None \<Rightarrow> [] | Some locs \<Rightarrow> locs) @ [location])"

definition reference_index :: "string list \<Rightarrow> (string \<times> location list) list" where
  "reference_index fp =
     foldl (\<lambda>idx (line_no, line).
              foldl (\<lambda>idx match. record_occurrence idx (fst match) (line_no, snd match + 1))
                idx (finditer line))
       [] (enumerate fp 1)"

text \<open>The lines printed for an index, in the order of \<open>sorted\<close>.\<close>

definition printed_line :: "(string \<times> location list) list \<Rightarrow> string \<Rightarrow> string" where
  "printed_line idx word =
     word @ '' '' @ repr_list (case map_of idx word of None \<Rightarrow> [] | Some locs \<Rightarrow> locs)"

definition printed :: "(string \<times> location list) list \<Rightarrow> string list" where
  "printed idx = map (printed_line idx) (sort_key upper (map fst idx))"

text \<open>
  The states the scripts go through: no word occurs twice in the dictionary, no list
  object is the value of two words, and every value is an object of the store.
\<close>

definition index_ok :: "state \<Rightarrow> bool" where
  "index_ok st =
     (distinct (map fst (index st)) \<and> distinct (map snd (index st))
      \<and> list_all (\<lambda>r. r < length (heap st)) (map snd (index st)))"

section \<open>Execution that may not return\<close>

text \<open>
  The functions above are total: that a call returns is part of what they are. To
  state that the code of the notebooks returns, its recursion and its loops are written
  here once more as partial functions into \<open>option\<close>, where \<open>None\<close> is a call that does
  not return. No termination argument enters these definitions; that they return is
  proved of them afterwards. The dictionary and list operations of Python and
  \<open>finditer\<close>, \<open>sorted\<close>, \<open>str\<close> and \<open>upper\<close> are library calls and return; \<open>hypot\<close> is
  a parameter that may not return. A text file is the list of its lines.
\<close>

subsection \<open>The lookup of StrKeyDict\<close>

text \<open>
  \<open>__getitem__\<close> calls \<open>__missing__\<close> on a miss, and \<open>__missing__\<close> indexes \<open>self\<close> again
  for a key that is not a string.
\<close>

partial_function (option) lookup_run :: "'v StrKeyDict \<Rightarrow> call \<Rightarrow> (pyerr + 'v) option" where
  "lookup_run d c =
     (case c of
        GetItem key \<Rightarrow>
          (case data d key of
             Some v \<Rightarrow> Some (Inr v)
           | None \<Rightarrow> lookup_run d (Missing key))
      | Missing key \<Rightarrow>
          (if is_str key then Some (Inl (KeyError key))
           else lookup_run d (GetItem (PStr (py_str key)))))"

subsection \<open>Loops\<close>

text \<open>
  \<open>for x in xs\<close> over a list: the iterator keeps a position, the loop takes the element
  at the position and runs the body, until the position is the length of the list; an
  exception raised by the body ends the loop.
\<close>

partial_function (option) for_run ::
  "('s \<Rightarrow> 'a \<Rightarrow> (pyerr + 's) option) \<Rightarrow> 'a list \<Rightarrow> nat \<Rightarrow> 's \<Rightarrow> (pyerr + 's) option" where
  "for_run body xs i st =
     (if i < length xs
      then (case body st (xs ! i) of
              None \<Rightarrow> None
            | Some (Inl e) \<Rightarrow> Some (Inl e)
            | Some (Inr st') \<Rightarrow> for_run body xs (Suc i) st')
      else Some (Inr st))"

text \<open>
  \<open>MutableMapping.update\<close>, the loop \<open>for key, value in other: self[key] = value\<close>.
\<close>

definition update_run :: "'v StrKeyDict \<Rightarrow> (pykey \<times> 'v) list \<Rightarrow> (pyerr + 'v StrKeyDict) option" where
  "update_run d other = for_run (\<lambda>d (key, v). Some (Inr (StrKeyDict_setitem d key v))) other 0 d"

text \<open>
  \<open>[Card(rank, suit) for suit in self.suits for rank in self.ranks]\<close> in
  \<open>FrenchDeck.__init__\<close>.
\<close>

definition FrenchDeck_init_run :: "(pyerr + FrenchDeck) option" where
  "FrenchDeck_init_run =
     (case for_run (\<lambda>acc suit.
              for_run (\<lambda>acc rank. Some (Inr (acc @ [\<lparr>rank = rank, suit = suit\<rparr>]))) ranks 0 acc)
            suits 0 [] of
        None \<Rightarrow> None
      | Some (Inl e) \<Rightarrow> Some (Inl e)
      | Some (Inr cs) \<Rightarrow> Some (Inr \<lparr>cards = cs\<rparr>))"

text \<open>
  FrenchDeck has no \<open>__iter__\<close>, \<open>__reversed__\<close> or \<open>__contains__\<close>. Iterating over a
  deck, as \<open>for card in deck\<close> does, calls \<open>deck[0]\<close>, \<open>deck[1]\<close> and so on until
  \<open>IndexError\<close> is raised; the result here is the list of the cards the loop visits.
\<close>

partial_function (option) iter_run :: "FrenchDeck \<Rightarrow> int \<Rightarrow> (pyerr + Card list) option" where
  "iter_run self i =
     (case fst (FrenchDeck_getitem self i) of
        Inl e \<Rightarrow> (if e = IndexError then Some (Inr []) else Some (Inl e))
      | Inr c \<Rightarrow> Option.bind (iter_run self (i + 1)) (\<lambda>r. Some (map_sum id ((#) c) r)))"

text \<open>
  \<open>reversed(deck)\<close> starts at \<open>len(deck) - 1\<close> and calls \<open>deck[i]\<close> down to \<open>deck[0]\<close>.
\<close>

partial_function (option) reversed_run :: "FrenchDeck \<Rightarrow> int \<Rightarrow> (pyerr + Card list) option" where
  "reversed_run self i =
     (if 0 \<le> i
      then (case fst (FrenchDeck_getitem self i) of
              Inl e \<Rightarrow> (if e = IndexError then Some (Inr []) else Some (Inl e))
            | Inr c \<Rightarrow> Option.bind (reversed_run self (i - 1)) (\<lambda>r. Some (map_sum id ((#) c) r)))
      else Some (Inr []))"

definition deck_reversed_run :: "FrenchDeck \<Rightarrow> (pyerr + Card list) option" where
  "deck_reversed_run self = (case FrenchDeck_len self of (n, self') \<Rightarrow> reversed_run self' (n - 1))"

text \<open>\<open>x in deck\<close> is a sequential scan, which ends at the first card equal to \<open>x\<close>.\<close>

partial_function (option) in_run :: "FrenchDeck \<Rightarrow> Card \<Rightarrow> int \<Rightarrow> (pyerr + bool) option" where
  "in_run self x i =
     (case fst (FrenchDeck_getitem self i) of
        Inl e \<Rightarrow> (if e = IndexError then Some (Inr False) else Some (Inl e))
      | Inr c \<Rightarrow> (if c = x then Some (Inr True) else in_run self x (i + 1)))"

text \<open>
  \<open>FrenchDeck.ranks.index(card.rank)\<close> in \<open>spades_high\<close> scans the list from the left;
  the result \<open>Some None\<close> is the scan that reaches the end, where Python raises
  \<open>ValueError\<close>.
\<close>

partial_function (option) index_run :: "'a list \<Rightarrow> 'a \<Rightarrow> nat \<Rightarrow> nat option option" where
  "index_run xs v i =
     (if i < length xs then (if xs ! i = v then Some (Some i) else index_run xs v (Suc i))
      else Some None)"

definition spades_high_run :: "Card \<Rightarrow> (pyerr + int) option" where
  "spades_high_run c =
     (case index_run ranks (rank c) 0 of
        None \<Rightarrow> None
      | Some None \<Rightarrow> Some (Inl (ValueError (rank c)))
      | Some (Some rank_value) \<Rightarrow>
          Some (case map_of suit_values (suit c) of
                  None \<Rightarrow> Inl (KeyError (PStr (suit c)))
                | Some suit_value \<Rightarrow> Inr (int rank_value * int (length suit_values) + suit_value)))"

text \<open>
  \<open>sorted(deck, key=spades_high)\<close> iterates over the deck, calls \<open>spades_high\<close> on
  every card in turn and sorts the cards by the keys.
\<close>

definition deck_sorted_run :: "FrenchDeck \<Rightarrow> (pyerr + Card list) option" where
  "deck_sorted_run self =
     (case iter_run self 0 of
        None \<Rightarrow> None
      | Some (Inl e) \<Rightarrow> Some (Inl e)
      | Some (Inr cs) \<Rightarrow>
          (case for_run (\<lambda>keys c. case spades_high_run c of
                                      None \<Rightarrow> None
                                    | Some (Inl e) \<Rightarrow> Some (Inl e)
                                    | Some (Inr k) \<Rightarrow> Some (Inr (keys @ [k]))) cs 0 [] of
             None \<Rightarrow> None
           | Some (Inl e) \<Rightarrow> Some (Inl e)
           | Some (Inr keys) \<Rightarrow> Some (Inr (map snd (sort_key fst (zip keys cs))))))"

text \<open>
  The comprehensions of Example 3-1:
  \<^verbatim>\<open>
  country_code = {country: code for code, country in DIAL_CODES}
  {code: country.upper() for country, code in country_code.items() if code < 66}
  \<close>
\<close>

definition DIAL_CODES :: "(int \<times> string) list" where
  "DIAL_CODES =
     [(86, ''China''), (91, ''India''), (1, ''United States''), (62, ''Indonesia''),
      (55, ''Brazil''), (92, ''Pakistan''), (880, ''Bangladesh''), (234, ''Nigeria''),
      (7, ''Russia''), (81, ''Japan'')]"

definition country_code_run :: "(pyerr + (string \<times> int) list) option" where
  "country_code_run =
     for_run (\<lambda>d (code, country). Some (Inr (store_item d country code))) DIAL_CODES 0 []"

definition upper_codes_run :: "(pyerr + (int \<times> string) list) option" where
  "upper_codes_run =
     (case country_code_run of
        None \<Rightarrow> None
      | Some (Inl e) \<Rightarrow> Some (Inl e)
      | Some (Inr country_code) \<Rightarrow>
          for_run (\<lambda>d (country, code).
                     Some (Inr (if code < 66 then store_item d code (upper country) else d)))
            country_code 0 [])"

text \<open>The loops of the word-index scripts: over the lines, over the matches of a line,
  and over the sorted words.\<close>

definition build_run ::
  "(state \<Rightarrow> nat \<Rightarrow> string \<times> nat \<Rightarrow> pyerr + state) \<Rightarrow> string list \<Rightarrow> (pyerr + state) option" where
  "build_run body fp =
     for_run (\<lambda>st (line_no, line). for_run (\<lambda>st match. Some (body st line_no match)) (finditer line) 0 st)
       (enumerate fp 1) 0 initial"

partial_function (option) print_run ::
  "(state \<Rightarrow> string \<Rightarrow> (pyerr + ref) \<times> state) \<Rightarrow> string list \<Rightarrow> nat \<Rightarrow> state \<Rightarrow> (string list \<times> pyerr option) option"
where
  "print_run lookup ws i st =
     (if i < length ws
      then (case lookup st (ws ! i) of
              (Inl e, st') \<Rightarrow> Some ([], Some e)
            | (Inr r, st') \<Rightarrow>
                Option.bind (print_run lookup ws (Suc i) st')
                  (\<lambda>(out, e). Some ((ws ! i @ '' '' @ repr_list (heap st' ! r)) # out, e)))
      else Some ([], None))"

definition script_run ::
  "(state \<Rightarrow> nat \<Rightarrow> string \<times> nat \<Rightarrow> pyerr + state) \<Rightarrow>
   (state \<Rightarrow> string \<Rightarrow> (pyerr + ref) \<times> state) \<Rightarrow> string list \<Rightarrow> (string list \<times> pyerr option) option" where
  "script_run body lookup fp =
     (case build_run body fp of
        None \<Rightarrow> None
      | Some (Inl e) \<Rightarrow> Some ([], Some e)
      | Some (Inr st) \<Rightarrow> print_run lookup (sort_key upper (map fst (index st))) 0 st)"

subsection \<open>Calls of hypot\<close>

text \<open>
  \<open>__abs__\<close> returns when \<open>hypot\<close> does, and \<open>__bool__\<close> when \<open>abs(self)\<close> does.
\<close>

definition Vector_abs_run ::
  "('a \<Rightarrow> 'a \<Rightarrow> (pyerr + 'f) option) \<Rightarrow> 'a Vector list \<Rightarrow> ref \<Rightarrow> ((pyerr + 'f) \<times> 'a Vector list) option" where
  "Vector_abs_run hypot_run store self =
     (case hypot_run (Vector_x (store ! self)) (Vector_y (store ! self)) of
        None \<Rightarrow> None
      | Some r \<Rightarrow> Some (r, store))"

definition Vector_bool_run ::
  "('a \<Rightarrow> 'a \<Rightarrow> (pyerr + 'f::zero) option) \<Rightarrow> 'a Vector list \<Rightarrow> ref \<Rightarrow> ((pyerr + bool) \<times> 'a Vector list) option" where
  "Vector_bool_run hypot_run store self =
     (case Vector_abs_run hypot_run store self of
        None \<Rightarrow> None
      | Some (Inl e, store') \<Rightarrow> Some (Inl e, store')
      | Some (Inr a, store') \<Rightarrow> Some (Inr (a \<noteq> 0), store'))"

section \<open>Properties of StrKeyDict\<close>

subsection \<open>The calls made by a lookup\<close>

lemma getitem_run_hit:
  "data d k = Some v \<Longrightarrow> StrKeyDict_getitem_run d k = ([GetItem k], Inr v)"
  by (simp add: StrKeyDict_getitem_run.simps)

lemma missing_run_str:
  "is_str k \<Longrightarrow> StrKeyDict_missing_run d k = ([Missing k], Inl (KeyError k))"
  by (simp add: StrKeyDict_missing_run.simps)

lemma getitem_run_miss:
  "data d k = None \<Longrightarrow>
   StrKeyDict_getitem_run d k =
     (GetItem k # fst (StrKeyDict_missing_run d k), snd (StrKeyDict_missing_run d k))"
  by (simp add: StrKeyDict_getitem_run.simps split: prod.splits)

lemma missing_run_other:
  "\<not> is_str k \<Longrightarrow>
   StrKeyDict_missing_run d k =
     (Missing k # fst (StrKeyDict_getitem_run d (PStr (py_str k))),
      snd (StrKeyDict_getitem_run d (PStr (py_str k))))"
  by (simp add: StrKeyDict_missing_run.simps split: prod.splits)

lemma getitem_run_str_miss:
  "data d (PStr s) = None \<Longrightarrow>
   StrKeyDict_getitem_run d (PStr s) = ([GetItem (PStr s), Missing (PStr s)], Inl (KeyError (PStr s)))"
  by (simp add: getitem_run_miss missing_run_str)

lemma str_keyed_miss: "str_keyed d \<Longrightarrow> \<not> is_str k \<Longrightarrow> data d k = None"
  by (auto simp: str_keyed_def)

lemma is_str_py_str: "is_str k \<Longrightarrow> PStr (py_str k) = k"
  by (cases k) simp_all

lemma str_keyed_setitem: "str_keyed d \<Longrightarrow> str_keyed (StrKeyDict_setitem d k v)"
  by (simp add: str_keyed_def StrKeyDict_setitem_def)

lemma str_keyed_update_pairs: "str_keyed d \<Longrightarrow> str_keyed (update_pairs d ps)"
  by (induction d ps rule: update_pairs.induct) (simp_all add: str_keyed_setitem)

lemma str_keyed_update: "str_keyed d \<Longrightarrow> str_keyed (StrKeyDict_update d other kwds)"
  by (simp add: StrKeyDict_update_def str_keyed_update_pairs)

lemma str_keyed_empty: "str_keyed \<lparr>data = Map.empty\<rparr>"
  by (simp add: str_keyed_def)

lemma str_keyed_init: "str_keyed (StrKeyDict_init dict kwargs)"
  by (simp add: StrKeyDict_init_def Let_def str_keyed_update str_keyed_empty split: option.splits)

lemma str_keyed_apply: "str_keyed d \<Longrightarrow> str_keyed (apply_mutation d m)"
  by (cases m) (simp_all add: str_keyed_setitem str_keyed_update)

lemma str_keyed_foldl: "str_keyed d \<Longrightarrow> str_keyed (foldl apply_mutation d ms)"
  by (induction ms arbitrary: d) (simp_all add: str_keyed_apply)

lemma str_int_1: "str_int 1 = ''1''"
  by (simp add: str_int_def str_nat.simps digit_char_def)

lemma str_int_2: "str_int 2 = ''2''"
  by (simp add: str_int_def str_nat.simps digit_char_def)

subsection \<open>Lookup of a key that is not a string\<close>

text \<open>
  Claim C1. Let \<open>k\<close> be a key that is not a string and let \<open>str(k)\<close> be a key of
  \<open>d.data\<close>, with value \<open>v\<close>. If the lookup of \<open>k\<close> itself misses in \<open>d.data\<close>, as it
  does in every instance whose keys are all strings, then \<open>d[k]\<close> returns \<open>v\<close>, and it
  does so through \<open>__missing__\<close>, which indexes \<open>d\<close> once more with \<open>str(k)\<close>.
\<close>

theorem StrKeyDict_getitem_normalizes:
  assumes "\<not> is_str k" and "data d (PStr (py_str k)) = Some v"
    and "str_keyed d \<or> data d k = None"
  shows "StrKeyDict_getitem d k = Inr v
       \<and> StrKeyDict_getitem_calls d k = [GetItem k, Missing k, GetItem (PStr (py_str k))]"
proof -
  from assms(1,3) have miss: "data d k = None"
    using str_keyed_miss by blast
  have "StrKeyDict_getitem_run d k = ([GetItem k, Missing k, GetItem (PStr (py_str k))], Inr v)"
    by (simp add: getitem_run_miss [OF miss] missing_run_other [OF assms(1)]
        getitem_run_hit [OF assms(2)])
  then show ?thesis
    by (simp add: StrKeyDict_getitem_def StrKeyDict_getitem_calls_def)
qed

text \<open>The integer key \<open>1\<close> finds the value stored under \<open>'1'\<close>.\<close>

theorem StrKeyDict_getitem_normalizes_witness:
  "\<not> is_str (PInt 1)
   \<and> data \<lparr>data = [PStr ''1'' \<mapsto> (10::int)]\<rparr> (PStr (py_str (PInt 1))) = Some 10
   \<and> str_keyed \<lparr>data = [PStr ''1'' \<mapsto> (10::int)]\<rparr>
   \<and> data \<lparr>data = [PStr ''1'' \<mapsto> (10::int)]\<rparr> (PInt 1) = None
   \<and> StrKeyDict_getitem \<lparr>data = [PStr ''1'' \<mapsto> (10::int)]\<rparr> (PInt 1) = Inr 10
   \<and> StrKeyDict_getitem_calls \<lparr>data = [PStr ''1'' \<mapsto> (10::int)]\<rparr> (PInt 1)
       = [GetItem (PInt 1), Missing (PInt 1), GetItem (PStr ''1'')]"
  using StrKeyDict_getitem_normalizes [of "PInt 1" "\<lparr>data = [PStr ''1'' \<mapsto> (10::int)]\<rparr>" 10]
  by (simp add: str_int_1 str_keyed_def)

subsection \<open>When a lookup raises\<close>

text \<open>
  Claim C4. In an instance whose keys are all strings, \<open>d[k]\<close> raises exactly when
  \<open>str(k)\<close> is not a key of \<open>d.data\<close>, and the exception is \<open>KeyError(str(k))\<close>. For a
  string \<open>k\<close> that is absent, \<open>__missing__\<close> raises \<open>KeyError(k)\<close> at once: it is the last
  call made, and \<open>d\<close> is not indexed again.
\<close>

theorem StrKeyDict_getitem_KeyError_iff:
  assumes "str_keyed d"
  shows "(isl (StrKeyDict_getitem d k) \<longleftrightarrow> data d (PStr (py_str k)) = None)
       \<and> (data d (PStr (py_str k)) = None \<longrightarrow>
            StrKeyDict_getitem d k = Inl (KeyError (PStr (py_str k))))
       \<and> (is_str k \<and> data d k = None \<longrightarrow>
            StrKeyDict_missing_run d k = ([Missing k], Inl (KeyError k))
          \<and> StrKeyDict_getitem_run d k = ([GetItem k, Missing k], Inl (KeyError k)))"
proof -
  have hit: "StrKeyDict_getitem d k = Inr v" if "data d (PStr (py_str k)) = Some v" for v
  proof (cases "is_str k")
    case True
    with that show ?thesis
      by (simp add: StrKeyDict_getitem_def is_str_py_str getitem_run_hit)
  next
    case False
    with that assms show ?thesis
      by (simp add: StrKeyDict_getitem_def getitem_run_miss str_keyed_miss missing_run_other getitem_run_hit)
  qed
  have miss: "StrKeyDict_getitem d k = Inl (KeyError (PStr (py_str k)))"
    if "data d (PStr (py_str k)) = None"
  proof (cases "is_str k")
    case True
    with that show ?thesis
      by (simp add: StrKeyDict_getitem_def is_str_py_str getitem_run_miss missing_run_str)
  next
    case False
    with that assms show ?thesis
      by (simp add: StrKeyDict_getitem_def getitem_run_miss str_keyed_miss missing_run_other
          missing_run_str)
  qed
  have imm: "StrKeyDict_missing_run d k = ([Missing k], Inl (KeyError k))
          \<and> StrKeyDict_getitem_run d k = ([GetItem k, Missing k], Inl (KeyError k))"
    if "is_str k" "data d k = None"
    using that by (simp add: getitem_run_miss missing_run_str)
  show ?thesis
  proof (cases "data d (PStr (py_str k))")
    case None
    with miss imm show ?thesis by simp
  next
    case (Some v)
    with hit imm show ?thesis by simp
  qed
qed

theorem StrKeyDict_getitem_KeyError_iff_witness:
  "str_keyed \<lparr>data = [PStr ''1'' \<mapsto> (10::int)]\<rparr>
   \<and> data \<lparr>data = [PStr ''1'' \<mapsto> (10::int)]\<rparr> (PStr (py_str (PInt 2))) = None
   \<and> StrKeyDict_getitem \<lparr>data = [PStr ''1'' \<mapsto> (10::int)]\<rparr> (PInt 2) = Inl (KeyError (PStr ''2''))
   \<and> is_str (PStr ''2'')
   \<and> data \<lparr>data = [PStr ''1'' \<mapsto> (10::int)]\<rparr> (PStr ''2'') = None
   \<and> StrKeyDict_missing_run \<lparr>data = [PStr ''1'' \<mapsto> (10::int)]\<rparr> (PStr ''2'')
       = ([Missing (PStr ''2'')], Inl (KeyError (PStr ''2'')))
   \<and> \<not> isl (StrKeyDict_getitem \<lparr>data = [PStr ''1'' \<mapsto> (10::int)]\<rparr> (PInt 1))"
  using StrKeyDict_getitem_KeyError_iff [of "\<lparr>data = [PStr ''1'' \<mapsto> (10::int)]\<rparr>" "PInt 2"]
    StrKeyDict_getitem_KeyError_iff [of "\<lparr>data = [PStr ''1'' \<mapsto> (10::int)]\<rparr>" "PStr ''2''"]
    StrKeyDict_getitem_KeyError_iff [of "\<lparr>data = [PStr ''1'' \<mapsto> (10::int)]\<rparr>" "PInt 1"]
  by (simp add: str_int_1 str_int_2 str_keyed_def)

subsection \<open>The depth of a lookup\<close>

text \<open>
  A lookup \<open>d[k]\<close> enters \<open>__getitem__\<close> at most twice and makes at most four calls:
  \<open>__missing__\<close> on a string raises at once, and on a key that is not a string it
  indexes \<open>d\<close> exactly once more, with \<open>str(k)\<close>.
\<close>

lemma lookup_depth:
  "length (filter is_getitem (StrKeyDict_getitem_calls d k)) \<le> 2
   \<and> length (StrKeyDict_getitem_calls d k) \<le> 4
   \<and> (is_str k \<longrightarrow> fst (StrKeyDict_missing_run d k) = [Missing k])
   \<and> (\<not> is_str k \<longrightarrow>
        length (filter is_getitem (fst (StrKeyDict_missing_run d k))) = 1
        \<and> hd (tl (fst (StrKeyDict_missing_run d k))) = GetItem (PStr (py_str k)))"
proof -
  have str: "length (filter is_getitem (fst (StrKeyDict_getitem_run d (PStr s)))) = 1
           \<and> length (fst (StrKeyDict_getitem_run d (PStr s))) \<le> 2" for s
    by (cases "data d (PStr s)") (simp_all add: getitem_run_hit getitem_run_str_miss)
  have other: "length (filter is_getitem (fst (StrKeyDict_missing_run d k))) = 1
      \<and> length (fst (StrKeyDict_missing_run d k)) \<le> 3
      \<and> hd (tl (fst (StrKeyDict_missing_run d k))) = GetItem (PStr (py_str k))" if "\<not> is_str k"
  proof -
    have "hd (fst (StrKeyDict_getitem_run d (PStr (py_str k)))) = GetItem (PStr (py_str k))"
      by (cases "data d (PStr (py_str k))") (simp_all add: getitem_run_hit getitem_run_str_miss)
    with that str [of "py_str k"] show ?thesis
      by (simp add: missing_run_other)
  qed
  have top: "length (filter is_getitem (StrKeyDict_getitem_calls d k)) \<le> 2
      \<and> length (StrKeyDict_getitem_calls d k) \<le> 4"
  proof (cases "data d k")
    case (Some v)
    then show ?thesis by (simp add: StrKeyDict_getitem_calls_def getitem_run_hit)
  next
    case None
    show ?thesis
    proof (cases "is_str k")
      case True
      with None show ?thesis
        by (simp add: StrKeyDict_getitem_calls_def getitem_run_miss missing_run_str)
    next
      case False
      with None other show ?thesis
        by (simp add: StrKeyDict_getitem_calls_def getitem_run_miss)
    qed
  qed
  from top other show ?thesis
    by (simp add: missing_run_str)
qed

subsection \<open>The keys of data are strings\<close>

text \<open>
  Claim C8. After the construction of an instance, from a mapping or a list of pairs
  and keyword arguments, and after any sequence of item assignments and updates, every
  key of \<open>d.data\<close> is a string: they all store through \<open>__setitem__\<close>, which applies
  \<open>str\<close> to the key.
\<close>

theorem StrKeyDict_keys_are_str:
  "str_keyed (run_mutations (StrKeyDict_init dict kwargs) ms)"
  by (simp add: run_mutations_def str_keyed_foldl str_keyed_init)

theorem StrKeyDict_keys_are_str_witness:
  "data (run_mutations (StrKeyDict_init (Some [(PInt 1, 10::int)]) [(''a'', 20)])
          [SetItem (PInt 2) 30, Update [(PNone, 40)] [(''b'', 50)]]) (PStr ''2'') = Some 30
   \<and> is_str (PStr ''2'')
   \<and> data (run_mutations (StrKeyDict_init (Some [(PInt 1, 10::int)]) [(''a'', 20)])
          [SetItem (PInt 2) 30, Update [(PNone, 40)] [(''b'', 50)]]) (PInt 2) = None
   \<and> str_keyed (run_mutations (StrKeyDict_init (Some [(PInt 1, 10::int)]) [(''a'', 20)])
          [SetItem (PInt 2) 30, Update [(PNone, 40)] [(''b'', 50)]])"
  using StrKeyDict_keys_are_str [of "Some [(PInt 1, 10::int)]" "[(''a'', 20)]"
      "[SetItem (PInt 2) 30, Update [(PNone, 40)] [(''b'', 50)]]"]
  by (simp add: run_mutations_def StrKeyDict_init_def StrKeyDict_update_def
      StrKeyDict_setitem_def str_int_2)

subsection \<open>Membership\<close>

text \<open>
  Claim C9. \<open>k in d\<close> does not raise and is \<open>True\<close> exactly when \<open>str(k)\<close> is a key of
  \<open>d.data\<close>. So after an item was stored under a key \<open>k'\<close>, every key with the same
  string form as \<open>k'\<close> is contained: after storing under \<open>'1'\<close>, the integer \<open>1\<close> is.
\<close>

theorem StrKeyDict_contains_iff:
  "StrKeyDict_contains d k = Inr (data d (PStr (py_str k)) \<noteq> None)
   \<and> (py_str k = py_str k' \<longrightarrow> StrKeyDict_contains (StrKeyDict_setitem d k' v) k = Inr True)
   \<and> StrKeyDict_contains (StrKeyDict_setitem d (PStr ''1'') v) (PInt 1) = Inr True"
  by (simp add: StrKeyDict_contains_def StrKeyDict_setitem_def str_int_1)

theorem StrKeyDict_contains_iff_witness:
  "py_str (PInt 13) = py_str (PStr ''13'')
   \<and> StrKeyDict_contains (StrKeyDict_setitem \<lparr>data = Map.empty\<rparr> (PStr ''13'') (0::int)) (PInt 13) = Inr True
   \<and> StrKeyDict_contains \<lparr>data = Map.empty :: pykey \<rightharpoonup> int\<rparr> (PInt 13) = Inr False"
  using StrKeyDict_contains_iff [of "StrKeyDict_setitem \<lparr>data = Map.empty\<rparr> (PStr ''13'') (0::int)" "PInt 13" "PInt 13" 0]
    StrKeyDict_contains_iff [of "\<lparr>data = Map.empty\<rparr>" "PInt 13" "PStr ''13''" "0::int"]
    StrKeyDict_contains_iff [of "\<lparr>data = Map.empty :: pykey \<rightharpoonup> int\<rparr>" "PInt 13" "PInt 13" 0]
  by (simp add: str_int_def str_nat.simps digit_char_def StrKeyDict_contains_def)


section \<open>Properties of FrenchDeck\<close>

subsection \<open>The deck as a sequence\<close>

lemma ranks_length: "length ranks = 13"
  by code_simp

lemma suits_length: "length suits = 4"
  by code_simp

lemma deck_length: "length (cards FrenchDeck_init) = 52"
  by code_simp

lemma deck_first: "cards FrenchDeck_init ! 0 = \<lparr>rank = ''2'', suit = ''spades''\<rparr>"
  by code_simp

lemma deck_last: "cards FrenchDeck_init ! 51 = \<lparr>rank = ''A'', suit = ''hearts''\<rparr>"
  by code_simp

lemma list_getitem_nonneg:
  "0 \<le> i \<Longrightarrow> i < int (length xs) \<Longrightarrow> list_getitem xs i = Inr (xs ! nat i)"
  by (simp add: list_getitem_def)

lemma list_getitem_neg:
  "- int (length xs) \<le> i \<Longrightarrow> i < 0 \<Longrightarrow> list_getitem xs i = Inr (xs ! nat (int (length xs) + i))"
  by (simp add: list_getitem_def Let_def add.commute)

lemma list_getitem_outside:
  "i < - int (length xs) \<or> int (length xs) \<le> i \<Longrightarrow> list_getitem xs i = Inl IndexError"
  by (auto simp: list_getitem_def Let_def)

text \<open>
  Claim C6. A new deck has 52 cards, 13 ranks in each of 4 suits, and \<open>len(deck)\<close> is
  the length of the list of cards. For a position \<open>i\<close> of the list, \<open>deck[i]\<close> is the
  card at \<open>i\<close> of the list when \<open>0 \<le> i < len\<close>, and the card at \<open>len + i\<close> when
  \<open>-len \<le> i < 0\<close>. Neither method changes the instance.
\<close>

theorem FrenchDeck_sequence:
  "fst (FrenchDeck_len FrenchDeck_init) = 52
   \<and> length ranks = 13 \<and> length suits = 4
   \<and> fst (FrenchDeck_len self) = int (length (cards self))
   \<and> (0 \<le> i \<and> i < int (length (cards self)) \<longrightarrow>
        fst (FrenchDeck_getitem self i) = Inr (cards self ! nat i))
   \<and> (- int (length (cards self)) \<le> i \<and> i < 0 \<longrightarrow>
        fst (FrenchDeck_getitem self i) = Inr (cards self ! nat (int (length (cards self)) + i)))
   \<and> snd (deck_exec self c) = self"
proof -
  have "snd (deck_exec self c) = self"
    by (cases c) (simp_all add: FrenchDeck_len_def FrenchDeck_getitem_def)
  then show ?thesis
    by (simp add: FrenchDeck_len_def FrenchDeck_getitem_def deck_length ranks_length suits_length
        list_getitem_nonneg list_getitem_neg)
qed

text \<open>\<open>deck[0]\<close> is the two of spades and \<open>deck[-1]\<close> the ace of hearts.\<close>

theorem FrenchDeck_sequence_witness:
  "(0::int) \<le> 0 \<and> (0::int) < int (length (cards FrenchDeck_init))
   \<and> fst (FrenchDeck_getitem FrenchDeck_init 0) = Inr \<lparr>rank = ''2'', suit = ''spades''\<rparr>
   \<and> - int (length (cards FrenchDeck_init)) \<le> - 1 \<and> (- 1::int) < 0
   \<and> fst (FrenchDeck_getitem FrenchDeck_init (- 1)) = Inr \<lparr>rank = ''A'', suit = ''hearts''\<rparr>
   \<and> snd (deck_exec FrenchDeck_init (GetItemAt (- 1))) = FrenchDeck_init"
  using FrenchDeck_sequence [of FrenchDeck_init 0 "GetItemAt (- 1)"]
    FrenchDeck_sequence [of FrenchDeck_init "- 1" "GetItemAt (- 1)"]
  by (simp add: deck_length deck_first deck_last)

subsection \<open>Ranking the cards\<close>

lemma deck_distinct: "distinct (cards FrenchDeck_init)"
  by code_simp

lemma values_distinct: "distinct (map spades_high (cards FrenchDeck_init))"
  by code_simp

lemma values_range: "set (map spades_high (cards FrenchDeck_init)) = Inr ` set [0..51]"
  by code_simp

lemma deck_formula:
  "list_all (\<lambda>c. list_ex (\<lambda>i. ranks ! i = rank c \<and>
       spades_high c = Inr (int i * 4 + (if suit c = ''spades'' then 3 else if suit c = ''hearts'' then 2
          else if suit c = ''diamonds'' then 1 else 0))) [0..<length ranks]
     \<and> suit c \<in> set [''spades'', ''hearts'', ''diamonds'', ''clubs'']) (cards FrenchDeck_init)"
  by code_simp

text \<open>
  Claim C10. For every card of a new deck, \<open>spades_high\<close> returns four times the
  position of the card's rank in \<open>ranks\<close> (a position that is unique, the ranks being
  distinct) plus 3 for spades, 2 for hearts, 1 for diamonds and 0 for clubs. The 52
  cards of the deck are distinct, \<open>spades_high\<close> is injective on them and its values on
  them are exactly the numbers from 0 to 51: 0 for the two of clubs and 51 for the ace of
  spades.
\<close>

theorem spades_high_ranking:
  "(\<forall>c \<in> set (cards FrenchDeck_init).
      (\<exists>i < length ranks. ranks ! i = rank c
         \<and> spades_high c = Inr (int i * 4 + (if suit c = ''spades'' then 3 else if suit c = ''hearts'' then 2
              else if suit c = ''diamonds'' then 1 else 0)))
      \<and> suit c \<in> {''spades'', ''hearts'', ''diamonds'', ''clubs''})
   \<and> distinct ranks
   \<and> distinct (cards FrenchDeck_init) \<and> length (cards FrenchDeck_init) = 52
   \<and> inj_on spades_high (set (cards FrenchDeck_init))
   \<and> spades_high ` set (cards FrenchDeck_init) = Inr ` {0..51}
   \<and> \<lparr>rank = ''2'', suit = ''clubs''\<rparr> \<in> set (cards FrenchDeck_init)
   \<and> spades_high \<lparr>rank = ''2'', suit = ''clubs''\<rparr> = Inr 0
   \<and> \<lparr>rank = ''A'', suit = ''spades''\<rparr> \<in> set (cards FrenchDeck_init)
   \<and> spades_high \<lparr>rank = ''A'', suit = ''spades''\<rparr> = Inr 51"
proof -
  have formula: "\<forall>c \<in> set (cards FrenchDeck_init).
      (\<exists>i < length ranks. ranks ! i = rank c
         \<and> spades_high c = Inr (int i * 4 + (if suit c = ''spades'' then 3 else if suit c = ''hearts'' then 2
              else if suit c = ''diamonds'' then 1 else 0)))
      \<and> suit c \<in> {''spades'', ''hearts'', ''diamonds'', ''clubs''}"
  proof
    fix c assume "c \<in> set (cards FrenchDeck_init)"
    with deck_formula have "list_ex (\<lambda>i. ranks ! i = rank c \<and>
       spades_high c = Inr (int i * 4 + (if suit c = ''spades'' then 3 else if suit c = ''hearts'' then 2
          else if suit c = ''diamonds'' then 1 else 0))) [0..<length ranks]
     \<and> suit c \<in> set [''spades'', ''hearts'', ''diamonds'', ''clubs'']"
      unfolding list_all_iff by blast
    then show "(\<exists>i < length ranks. ranks ! i = rank c
         \<and> spades_high c = Inr (int i * 4 + (if suit c = ''spades'' then 3 else if suit c = ''hearts'' then 2
              else if suit c = ''diamonds'' then 1 else 0)))
      \<and> suit c \<in> {''spades'', ''hearts'', ''diamonds'', ''clubs''}"
      unfolding list_ex_iff by auto
  qed
  have dr: "distinct ranks" by code_simp
  have inj: "inj_on spades_high (set (cards FrenchDeck_init))"
    using values_distinct by (simp add: distinct_map)
  have range: "spades_high ` set (cards FrenchDeck_init) = Inr ` {0..51}"
    using values_range by simp
  have lo: "\<lparr>rank = ''2'', suit = ''clubs''\<rparr> \<in> set (cards FrenchDeck_init)"
    by code_simp
  have lo_val: "spades_high \<lparr>rank = ''2'', suit = ''clubs''\<rparr> = Inr 0"
    by code_simp
  have hi: "\<lparr>rank = ''A'', suit = ''spades''\<rparr> \<in> set (cards FrenchDeck_init)"
    by code_simp
  have hi_val: "spades_high \<lparr>rank = ''A'', suit = ''spades''\<rparr> = Inr 51"
    by code_simp
  from formula dr deck_distinct deck_length inj range lo lo_val hi hi_val
  show ?thesis by blast
qed

text \<open>The queen of hearts: rank at position 10, value \<open>10 * 4 + 2\<close>.\<close>

theorem spades_high_ranking_witness:
  "\<lparr>rank = ''Q'', suit = ''hearts''\<rparr> \<in> set (cards FrenchDeck_init)
   \<and> ranks ! 10 = ''Q''
   \<and> spades_high \<lparr>rank = ''Q'', suit = ''hearts''\<rparr> = Inr 42
   \<and> suit \<lparr>rank = ''Q'', suit = ''hearts''\<rparr> \<in> {''spades'', ''hearts'', ''diamonds'', ''clubs''}"
proof -
  have m: "\<lparr>rank = ''Q'', suit = ''hearts''\<rparr> \<in> set (cards FrenchDeck_init)"
    by code_simp
  have q: "ranks ! 10 = ''Q''"
    by code_simp
  from spades_high_ranking
  have "\<forall>c \<in> set (cards FrenchDeck_init).
      (\<exists>i < length ranks. ranks ! i = rank c
         \<and> spades_high c = Inr (int i * 4 + (if suit c = ''spades'' then 3 else if suit c = ''hearts'' then 2
              else if suit c = ''diamonds'' then 1 else 0)))
      \<and> suit c \<in> {''spades'', ''hearts'', ''diamonds'', ''clubs''}"
    and dr: "distinct ranks"
    by blast+
  from bspec [OF this(1) m] obtain i where i: "i < length ranks" "ranks ! i = ''Q''"
    "spades_high \<lparr>rank = ''Q'', suit = ''hearts''\<rparr> = Inr (int i * 4 + 2)"
    by auto
  have "(10::nat) < length ranks" by (simp add: ranks_length)
  with dr i(1,2) q have "i = 10"
    using nth_eq_iff_index_eq [of ranks i 10] by simp
  with i(3) m q show ?thesis by simp
qed

section \<open>Properties of Vector\<close>

lemma hypot_exact_3_4: "hypot_exact 3 4 = Inr 5"
proof -
  have "sqrt 25 = 5"
    by (rule real_sqrt_unique) simp_all
  then show ?thesis by (simp add: hypot_exact_def)
qed

text \<open>
  Claim C7. \<open>Vector(x, y)\<close> is a new vector with the components \<open>x\<close> and \<open>y\<close>. For
  vectors \<open>self\<close> and \<open>other\<close> of the store: \<open>self + other\<close> is a new
  vector whose components are the sums of the components, \<open>self * s\<close> a new vector whose
  components are the components of \<open>self\<close> times \<open>s\<close>, and \<open>abs(self)\<close> is what \<open>hypot\<close>
  returns on the two components. \<open>bool(self)\<close> is \<open>False\<close> exactly when \<open>abs(self)\<close> is
  zero, and \<open>True\<close> exactly when it is another number. The vectors that were in the store
  before an operation are all in it unchanged after it, the operands among them.
\<close>

theorem Vector_operators:
  assumes "self < length store" and "other < length store"
  shows "(case Vector_init store x y of (r, store') \<Rightarrow>
            store' ! r = \<lparr>Vector_x = x, Vector_y = y\<rparr>
            \<and> r = length store \<and> take (length store) store' = store)
       \<and> (case Vector_add store self other of (r, store') \<Rightarrow>
            store' ! r = \<lparr>Vector_x = Vector_x (store ! self) + Vector_x (store ! other),
                          Vector_y = Vector_y (store ! self) + Vector_y (store ! other)\<rparr>
            \<and> r = length store \<and> take (length store) store' = store
            \<and> store' ! self = store ! self \<and> store' ! other = store ! other)
       \<and> (case Vector_mul store self s of (r, store') \<Rightarrow>
            store' ! r = \<lparr>Vector_x = Vector_x (store ! self) * s, Vector_y = Vector_y (store ! self) * s\<rparr>
            \<and> r = length store \<and> take (length store) store' = store
            \<and> store' ! self = store ! self)
       \<and> Vector_abs hypot store self = (hypot (Vector_x (store ! self)) (Vector_y (store ! self)), store)
       \<and> (fst (Vector_bool hypot store self) = Inr False \<longleftrightarrow> fst (Vector_abs hypot store self) = Inr 0)
       \<and> (fst (Vector_bool hypot store self) = Inr True \<longleftrightarrow>
            (\<exists>a. fst (Vector_abs hypot store self) = Inr a \<and> a \<noteq> 0))
       \<and> snd (Vector_bool hypot store self) = store"
proof -
  have add: "case Vector_add store self other of (r, store') \<Rightarrow>
            store' ! r = \<lparr>Vector_x = Vector_x (store ! self) + Vector_x (store ! other),
                          Vector_y = Vector_y (store ! self) + Vector_y (store ! other)\<rparr>
            \<and> r = length store \<and> take (length store) store' = store
            \<and> store' ! self = store ! self \<and> store' ! other = store ! other"
    using assms by (simp add: Vector_add_def Vector_init_def Let_def nth_append)
  have mul: "case Vector_mul store self s of (r, store') \<Rightarrow>
            store' ! r = \<lparr>Vector_x = Vector_x (store ! self) * s, Vector_y = Vector_y (store ! self) * s\<rparr>
            \<and> r = length store \<and> take (length store) store' = store
            \<and> store' ! self = store ! self"
    using assms by (simp add: Vector_mul_def Vector_init_def nth_append)
  have abs: "Vector_abs hypot store self = (hypot (Vector_x (store ! self)) (Vector_y (store ! self)), store)"
    by (simp add: Vector_abs_def)
  have bool: "(fst (Vector_bool hypot store self) = Inr False \<longleftrightarrow> fst (Vector_abs hypot store self) = Inr 0)
       \<and> (fst (Vector_bool hypot store self) = Inr True \<longleftrightarrow>
            (\<exists>a. fst (Vector_abs hypot store self) = Inr a \<and> a \<noteq> 0))
       \<and> snd (Vector_bool hypot store self) = store"
    by (cases "hypot (Vector_x (store ! self)) (Vector_y (store ! self))")
      (simp_all add: Vector_bool_def Vector_abs_def)
  have init: "case Vector_init store x y of (r, store') \<Rightarrow>
            store' ! r = \<lparr>Vector_x = x, Vector_y = y\<rparr>
            \<and> r = length store \<and> take (length store) store' = store"
    by (simp add: Vector_init_def)
  from init add mul abs bool show ?thesis by blast
qed

text \<open>The vectors of the notebook: \<open>Vector(3, 4)\<close>, of length 5, and \<open>Vector(2, 1)\<close>.\<close>

theorem Vector_operators_witness:
  "(0::nat) < length [\<lparr>Vector_x = 3::int, Vector_y = 4\<rparr>, \<lparr>Vector_x = 2, Vector_y = 1\<rparr>]
   \<and> (1::nat) < length [\<lparr>Vector_x = 3::int, Vector_y = 4\<rparr>, \<lparr>Vector_x = 2, Vector_y = 1\<rparr>]
   \<and> Vector_add [\<lparr>Vector_x = 3::int, Vector_y = 4\<rparr>, \<lparr>Vector_x = 2, Vector_y = 1\<rparr>] 0 1
       = (2, [\<lparr>Vector_x = 3, Vector_y = 4\<rparr>, \<lparr>Vector_x = 2, Vector_y = 1\<rparr>, \<lparr>Vector_x = 5, Vector_y = 5\<rparr>])
   \<and> Vector_mul [\<lparr>Vector_x = 3::int, Vector_y = 4\<rparr>, \<lparr>Vector_x = 2, Vector_y = 1\<rparr>] 0 3
       = (2, [\<lparr>Vector_x = 3, Vector_y = 4\<rparr>, \<lparr>Vector_x = 2, Vector_y = 1\<rparr>, \<lparr>Vector_x = 9, Vector_y = 12\<rparr>])
   \<and> fst (Vector_abs hypot_exact [\<lparr>Vector_x = 3::int, Vector_y = 4\<rparr>, \<lparr>Vector_x = 2, Vector_y = 1\<rparr>] 0) = Inr 5
   \<and> fst (Vector_bool hypot_exact [\<lparr>Vector_x = 3::int, Vector_y = 4\<rparr>, \<lparr>Vector_x = 2, Vector_y = 1\<rparr>] 0) = Inr True"
proof -
  let ?s = "[\<lparr>Vector_x = 3::int, Vector_y = 4\<rparr>, \<lparr>Vector_x = 2, Vector_y = 1\<rparr>]"
  have len: "0 < length ?s" "1 < length ?s"
    by simp_all
  note th = Vector_operators [OF len, of 0 0 3 hypot_exact]
  have add: "Vector_add ?s 0 1 = (2, ?s @ [\<lparr>Vector_x = 5, Vector_y = 5\<rparr>])"
    by (simp add: Vector_add_def Vector_init_def)
  have mul: "Vector_mul ?s 0 3 = (2, ?s @ [\<lparr>Vector_x = 9, Vector_y = 12\<rparr>])"
    by (simp add: Vector_mul_def Vector_init_def)
  from th have abs: "fst (Vector_abs hypot_exact ?s 0) = Inr 5"
    by (simp add: hypot_exact_3_4)
  with th have "fst (Vector_bool hypot_exact ?s 0) = Inr True"
    by simp
  with len add mul abs show ?thesis by simp
qed


section \<open>Properties of the word-index scripts\<close>

subsection \<open>Storing in the dictionary\<close>

lemma store_item_absent: "map_of items k = None \<Longrightarrow> store_item items k v = items @ [(k, v)]"
  by (induction items k v rule: store_item.induct) (auto split: if_splits)

lemma store_item_same: "map_of items k = Some v \<Longrightarrow> store_item items k v = items"
  by (induction items k v rule: store_item.induct) (auto split: if_splits)

lemma map_of_contents:
  "map_of (contents st) w = map_option (\<lambda>r. heap st ! r) (map_of (index st) w)"
  by (simp add: contents_def map_of_map)

lemma map_of_snd_in: "map_of items k = Some r \<Longrightarrow> r \<in> snd ` set items"
  by (metis image_eqI map_of_SomeD snd_conv)

lemma deref_update:
  assumes "distinct (map snd items)" and "map_of items w = Some r" and "r < length h"
  shows "map (\<lambda>(k, r'). (k, h[r := v] ! r')) items
       = store_item (map (\<lambda>(k, r'). (k, h ! r')) items) w v"
  using assms
proof (induction items)
  case Nil
  then show ?case by simp
next
  case (Cons p items)
  obtain k' r' where p: "p = (k', r')" by (cases p)
  show ?case
  proof (cases "k' = w")
    case True
    with Cons.prems p have r: "r' = r" by simp
    from Cons.prems(1) p r have "r \<notin> snd ` set items" by simp
    then have "\<forall>q \<in> set items. snd q \<noteq> r" by force
    then have "map (\<lambda>(k, r'). (k, h[r := v] ! r')) items = map (\<lambda>(k, r'). (k, h ! r')) items"
      by (intro map_cong refl) auto
    with True p r Cons.prems(3) show ?thesis by simp
  next
    case False
    with Cons.prems p have rest: "map_of items w = Some r" by simp
    then have "r \<in> snd ` set items" by (rule map_of_snd_in)
    with Cons.prems(1) p have "r' \<noteq> r" by auto
    moreover from Cons.prems(1) have "distinct (map snd items)" by simp
    ultimately show ?thesis
      using Cons.IH [OF _ rest Cons.prems(3)] False p by simp
  qed
qed

lemma deref_grow:
  "list_all (\<lambda>r. r < length h) (map snd items) \<Longrightarrow>
   map (\<lambda>(k, r). (k, (h @ h') ! r)) items = map (\<lambda>(k, r). (k, h ! r)) items"
  by (induction items) (auto simp: nth_append)

lemma index_ok_bound:
  "index_ok st \<Longrightarrow> map_of (index st) w = Some r \<Longrightarrow> r < length (heap st)"
  by (auto simp: index_ok_def list_all_iff dest: map_of_snd_in)

lemma fresh_not_in:
  "list_all (\<lambda>r. r < n) rs \<Longrightarrow> (n::nat) \<notin> set rs"
  by (force simp: list_all_iff)

lemma map_of_None_keys: "map_of items k = None \<Longrightarrow> k \<notin> fst ` set items"
  by (simp add: map_of_eq_None_iff)

lemma list_all_mono_less: "list_all (\<lambda>r. r < n) rs \<Longrightarrow> n \<le> m \<Longrightarrow> list_all (\<lambda>r. r < (m::nat)) rs"
  by (auto simp: list_all_iff)

subsection \<open>One pass of each loop body\<close>

text \<open>
  From a state that is \<open>index_ok\<close>, each of the three bodies ends without an exception
  in such a state, and has added the location to the list of the word. The list object
  that Examples 3-2 and 3-4 create for a word that is present stays in the store,
  referred to by nothing.
\<close>

lemma index_ok_insert:
  assumes "index_ok st" and "map_of (index st) w = None" and "length (heap st) < length h"
  shows "index_ok \<lparr>index = index st @ [(w, length (heap st))], heap = h\<rparr>"
proof -
  from assms(2) have "w \<notin> fst ` set (index st)" by (rule map_of_None_keys)
  moreover from assms(1) have "length (heap st) \<notin> set (map snd (index st))"
    by (intro fresh_not_in) (simp add: index_ok_def)
  moreover from assms(1,3) have "list_all (\<lambda>r. r < length h) (map snd (index st))"
    by (auto simp: index_ok_def elim: list_all_mono_less)
  ultimately show ?thesis
    using assms by (simp add: index_ok_def)
qed

lemma contents_insert:
  assumes "index_ok st" and "map_of (index st) w = None"
  shows "contents \<lparr>index = index st @ [(w, length (heap st))], heap = heap st @ [[loc]]\<rparr>
       = record_occurrence (contents st) w loc"
proof -
  have "contents \<lparr>index = index st @ [(w, length (heap st))], heap = heap st @ [[loc]]\<rparr>
      = contents st @ [(w, [loc])]"
    using assms(1) by (simp add: contents_def index_ok_def deref_grow)
  moreover have "map_of (contents st) w = None"
    using assms(2) by (simp add: map_of_contents)
  ultimately show ?thesis
    by (simp add: record_occurrence_def store_item_absent)
qed

lemma contents_append:
  assumes "index_ok st" and "map_of (index st) w = Some r"
  shows "contents \<lparr>index = index st, heap = (heap st)[r := heap st ! r @ [loc]] @ garbage\<rparr>
       = record_occurrence (contents st) w loc"
proof -
  let ?h = "(heap st)[r := heap st ! r @ [loc]]"
  from assms have r: "r < length (heap st)" by (rule index_ok_bound)
  have "contents \<lparr>index = index st, heap = ?h @ garbage\<rparr> = map (\<lambda>(k, r'). (k, ?h ! r')) (index st)"
    using assms(1) by (simp add: contents_def index_ok_def deref_grow)
  also have "\<dots> = store_item (contents st) w (heap st ! r @ [loc])"
    unfolding contents_def using assms r by (intro deref_update) (simp_all add: index_ok_def)
  also have "\<dots> = record_occurrence (contents st) w loc"
    using assms(2) by (simp add: record_occurrence_def map_of_contents)
  finally show ?thesis .
qed

lemma index_ok_append:
  assumes "index_ok st"
  shows "index_ok \<lparr>index = index st, heap = (heap st)[r := v] @ garbage\<rparr>"
  using assms by (auto simp: index_ok_def elim: list_all_mono_less)

lemma body_get_step:
  assumes "index_ok st"
  shows "\<exists>st'. body_get st n m = Inr st' \<and> index_ok st'
        \<and> contents st' = record_occurrence (contents st) (fst m) (n, snd m + 1)"
proof (cases "map_of (index st) (fst m)")
  case None
  let ?st' = "\<lparr>index = index st @ [(fst m, length (heap st))], heap = heap st @ [[(n, snd m + 1)]]\<rparr>"
  have "body_get st n m = Inr ?st'"
    using None
    by (simp add: body_get_def new_list_def dict_get_def list_append_def dict_setitem_def
        store_item_absent)
  moreover have "index_ok ?st'"
    using assms None by (intro index_ok_insert) simp_all
  moreover have "contents ?st' = record_occurrence (contents st) (fst m) (n, snd m + 1)"
    using assms None by (rule contents_insert)
  ultimately show ?thesis by blast
next
  case (Some r)
  from assms Some have r: "r < length (heap st)" by (rule index_ok_bound)
  let ?st' = "\<lparr>index = index st, heap = (heap st)[r := heap st ! r @ [(n, snd m + 1)]] @ [[]]\<rparr>"
  have "body_get st n m = Inr ?st'"
    using Some r
    by (simp add: body_get_def new_list_def dict_get_def list_append_def dict_setitem_def
        store_item_same nth_append list_update_append)
  moreover have "index_ok ?st'"
    using assms by (rule index_ok_append)
  moreover have "contents ?st' = record_occurrence (contents st) (fst m) (n, snd m + 1)"
    using assms Some by (rule contents_append)
  ultimately show ?thesis by blast
qed

lemma body_setdefault_step:
  assumes "index_ok st"
  shows "\<exists>st'. body_setdefault st n m = Inr st' \<and> index_ok st'
        \<and> contents st' = record_occurrence (contents st) (fst m) (n, snd m + 1)"
proof (cases "map_of (index st) (fst m)")
  case None
  let ?st' = "\<lparr>index = index st @ [(fst m, length (heap st))], heap = heap st @ [[(n, snd m + 1)]]\<rparr>"
  have "body_setdefault st n m = Inr ?st'"
    using None
    by (simp add: body_setdefault_def new_list_def dict_setdefault_def list_append_def
        dict_setitem_def store_item_absent)
  moreover have "index_ok ?st'"
    using assms None by (intro index_ok_insert) simp_all
  moreover have "contents ?st' = record_occurrence (contents st) (fst m) (n, snd m + 1)"
    using assms None by (rule contents_insert)
  ultimately show ?thesis by blast
next
  case (Some r)
  from assms Some have r: "r < length (heap st)" by (rule index_ok_bound)
  let ?st' = "\<lparr>index = index st, heap = (heap st)[r := heap st ! r @ [(n, snd m + 1)]] @ [[]]\<rparr>"
  have "body_setdefault st n m = Inr ?st'"
    using Some r
    by (simp add: body_setdefault_def new_list_def dict_setdefault_def list_append_def
        nth_append list_update_append)
  moreover have "index_ok ?st'"
    using assms by (rule index_ok_append)
  moreover have "contents ?st' = record_occurrence (contents st) (fst m) (n, snd m + 1)"
    using assms Some by (rule contents_append)
  ultimately show ?thesis by blast
qed

lemma body_defaultdict_step:
  assumes "index_ok st"
  shows "\<exists>st'. body_defaultdict st n m = Inr st' \<and> index_ok st'
        \<and> contents st' = record_occurrence (contents st) (fst m) (n, snd m + 1)"
proof (cases "map_of (index st) (fst m)")
  case None
  let ?st' = "\<lparr>index = index st @ [(fst m, length (heap st))], heap = heap st @ [[(n, snd m + 1)]]\<rparr>"
  have "body_defaultdict st n m = Inr ?st'"
    using None
    by (simp add: body_defaultdict_def new_list_def defaultdict_getitem_def list_append_def
        dict_setitem_def store_item_absent)
  moreover have "index_ok ?st'"
    using assms None by (intro index_ok_insert) simp_all
  moreover have "contents ?st' = record_occurrence (contents st) (fst m) (n, snd m + 1)"
    using assms None by (rule contents_insert)
  ultimately show ?thesis by blast
next
  case (Some r)
  let ?st' = "\<lparr>index = index st, heap = (heap st)[r := heap st ! r @ [(n, snd m + 1)]] @ []\<rparr>"
  have "body_defaultdict st n m = Inr ?st'"
    using Some
    by (simp add: body_defaultdict_def defaultdict_getitem_def list_append_def)
  moreover have "index_ok ?st'"
    using assms by (rule index_ok_append)
  moreover have "contents ?st' = record_occurrence (contents st) (fst m) (n, snd m + 1)"
    using assms Some by (rule contents_append)
  ultimately show ?thesis by blast
qed

subsection \<open>The loops\<close>

lemma for_each_simulation:
  assumes step: "\<And>st x. index_ok st \<Longrightarrow>
      \<exists>st'. body st x = Inr st' \<and> index_ok st' \<and> contents st' = astep (contents st) x"
    and "index_ok st"
  shows "\<exists>st'. for_each body st xs = Inr st' \<and> index_ok st'
       \<and> contents st' = foldl astep (contents st) xs"
  using assms(2)
proof (induction xs arbitrary: st)
  case Nil
  then show ?case by simp
next
  case (Cons x xs)
  from step [OF Cons.prems, of x] obtain st1 where
    st1: "body st x = Inr st1" "index_ok st1" "contents st1 = astep (contents st) x"
    by blast
  from Cons.IH [OF st1(2)] st1 show ?case by simp
qed

lemma build_simulation:
  assumes step: "\<And>st n m. index_ok st \<Longrightarrow>
      \<exists>st'. body st n m = Inr st' \<and> index_ok st'
        \<and> contents st' = record_occurrence (contents st) (fst m) (n, snd m + 1)"
  shows "\<exists>st. build body fp = Inr st \<and> index_ok st \<and> contents st = reference_index fp"
proof -
  have inner: "\<exists>st'. (case x of (line_no, line) \<Rightarrow>
                    for_each (\<lambda>st match. body st line_no match) st (finditer line)) = Inr st'
      \<and> index_ok st'
      \<and> contents st' = (case x of (line_no, line) \<Rightarrow>
            foldl (\<lambda>idx match. record_occurrence idx (fst match) (line_no, snd match + 1))
              (contents st) (finditer line))"
    if "index_ok st" for st and x :: "nat \<times> string"
  proof (cases x)
    case (Pair line_no line)
    from for_each_simulation [where body = "\<lambda>st match. body st line_no match"
        and astep = "\<lambda>idx match. record_occurrence idx (fst match) (line_no, snd match + 1)",
        OF step that]
    show ?thesis unfolding Pair by simp
  qed
  have init: "index_ok initial" "contents initial = []"
    by (simp_all add: index_ok_def initial_def contents_def)
  from for_each_simulation [where body = "\<lambda>st (line_no, line).
          for_each (\<lambda>st match. body st line_no match) st (finditer line)"
      and astep = "\<lambda>idx (line_no, line).
          foldl (\<lambda>idx match. record_occurrence idx (fst match) (line_no, snd match + 1))
            idx (finditer line)", OF _ init(1), of "enumerate fp 1"] inner
  show ?thesis
    unfolding build_def reference_index_def init(2) by (simp add: case_prod_unfold)
qed

subsection \<open>Printing\<close>

lemma keys_contents: "map fst (contents st) = map fst (index st)"
  by (simp add: contents_def case_prod_unfold comp_def)

lemma print_loop_present:
  assumes lookup: "\<And>w r. map_of (index st) w = Some r \<Longrightarrow> lookup st w = (Inr r, st)"
    and "set ws \<subseteq> fst ` set (index st)"
  shows "print_loop lookup st ws
       = (map (printed_line (contents st)) ws, None)"
  using assms(2)
proof (induction ws)
  case Nil
  then show ?case by simp
next
  case (Cons w ws)
  from Cons.prems have "w \<in> fst ` set (index st)" by simp
  then obtain r where r: "map_of (index st) w = Some r"
    by (metis map_of_eq_None_iff not_Some_eq)
  from Cons.prems have "set ws \<subseteq> fst ` set (index st)" by simp
  from Cons.IH [OF this] lookup [OF r] r show ?case
    by (simp add: map_of_contents printed_line_def)
qed

lemma print_index_present:
  assumes "\<And>w r. map_of (index st) w = Some r \<Longrightarrow> lookup st w = (Inr r, st)"
  shows "print_index lookup st = (printed (contents st), None)"
  unfolding print_index_def printed_def keys_contents
  by (rule print_loop_present [of st lookup, OF assms]) simp_all

lemma dict_getitem_present:
  "map_of (index st) w = Some r \<Longrightarrow> dict_getitem st w = (Inr r, st)"
  by (simp add: dict_getitem_def)

lemma defaultdict_getitem_present:
  "map_of (index st) w = Some r \<Longrightarrow> defaultdict_getitem f st w = (Inr r, st)"
  by (simp add: defaultdict_getitem_def)

lemma script_reference:
  assumes build: "\<exists>st. build body fp = Inr st \<and> index_ok st \<and> contents st = reference_index fp"
    and lookup: "\<And>st w r. map_of (index st) w = Some r \<Longrightarrow> lookup st w = (Inr r, st)"
  shows "built_index body fp = Inr (reference_index fp)
       \<and> script body lookup fp = (printed (reference_index fp), None)"
proof -
  from build obtain st where st: "build body fp = Inr st" "contents st = reference_index fp"
    by blast
  from print_index_present [of st lookup, OF lookup] st show ?thesis
    by (simp add: built_index_def script_def)
qed

text \<open>
  Claim C3. On every list of lines, the scripts of Examples 3-2, 3-4 and 3-5 end their
  first loop without an exception and with the same index: the same words in the same
  order of insertion, each with the same list of locations in the same order. It is the
  index \<open>reference_index\<close>. The three scripts then print the same lines in the same order
  and end without an exception.
\<close>

theorem index_scripts_agree:
  "built_index body_get fp = Inr (reference_index fp)
   \<and> built_index body_setdefault fp = built_index body_get fp
   \<and> built_index body_defaultdict fp = built_index body_get fp
   \<and> index_setdefault fp = index_get fp
   \<and> index_defaultdict fp = index_get fp
   \<and> index_get fp = (printed (reference_index fp), None)"
proof -
  have g: "built_index body_get fp = Inr (reference_index fp)
       \<and> index_get fp = (printed (reference_index fp), None)"
    unfolding index_get_def
    by (intro script_reference build_simulation body_get_step dict_getitem_present)
  have s: "built_index body_setdefault fp = Inr (reference_index fp)
       \<and> index_setdefault fp = (printed (reference_index fp), None)"
    unfolding index_setdefault_def
    by (intro script_reference build_simulation body_setdefault_step dict_getitem_present)
  have d: "built_index body_defaultdict fp = Inr (reference_index fp)
       \<and> index_defaultdict fp = (printed (reference_index fp), None)"
    unfolding index_defaultdict_def
    by (intro script_reference build_simulation body_defaultdict_step defaultdict_getitem_present)
  from g s d show ?thesis by simp
qed

text \<open>A text of three lines, with three spellings of one word.\<close>

lemma index_defaultdict_example:
  "index_defaultdict [''the cat The hat'', ''a the Cat'', ''THE b''] =
    ([''a [(2, 1)]'', ''b [(3, 5)]'', ''cat [(1, 5)]'', ''Cat [(2, 7)]'',
      ''hat [(1, 13)]'', ''the [(1, 1), (2, 3)]'', ''The [(1, 9)]'', ''THE [(3, 1)]''], None)"
  by code_simp

theorem index_scripts_agree_witness:
  "index_get [''the cat The hat'', ''a the Cat'', ''THE b''] =
    ([''a [(2, 1)]'', ''b [(3, 5)]'', ''cat [(1, 5)]'', ''Cat [(2, 7)]'',
      ''hat [(1, 13)]'', ''the [(1, 1), (2, 3)]'', ''The [(1, 9)]'', ''THE [(3, 1)]''], None)
   \<and> index_setdefault [''the cat The hat'', ''a the Cat'', ''THE b''] =
    ([''a [(2, 1)]'', ''b [(3, 5)]'', ''cat [(1, 5)]'', ''Cat [(2, 7)]'',
      ''hat [(1, 13)]'', ''the [(1, 1), (2, 3)]'', ''The [(1, 9)]'', ''THE [(3, 1)]''], None)"
  using index_scripts_agree [of "[''the cat The hat'', ''a the Cat'', ''THE b'']"]
    index_defaultdict_example
  by simp

subsection \<open>A key that is missing\<close>

text \<open>
  Claim C2. Let \<open>k\<close> be a key that is not in the dictionary. Then \<open>d[k]\<close> on a plain
  dictionary raises \<open>KeyError(k)\<close> and leaves the dictionary and the lists as they are;
  \<open>d.get(k, [])\<close> returns the new empty list that its argument \<open>[]\<close> created, and leaves
  the dictionary as it is; and \<open>d[k]\<close> on a \<open>defaultdict(list)\<close> creates a new empty
  list, inserts it under \<open>k\<close> at the end of the dictionary and returns it, so that \<open>k\<close>
  is found from then on.
\<close>

theorem missing_key_handling:
  assumes "map_of (index st) k = None"
  shows "dict_getitem st k = (Inl (KeyError (PStr k)), st)
       \<and> (case new_list st of (dflt, st1) \<Rightarrow>
            (case dict_get st1 k dflt of (r, st2) \<Rightarrow>
               heap st2 ! r = [] \<and> r = dflt \<and> index st2 = index st))
       \<and> (case defaultdict_getitem (Some new_list) st k of (res, st') \<Rightarrow>
            res = Inr (length (heap st))
            \<and> heap st' = heap st @ [[]]
            \<and> heap st' ! length (heap st) = []
            \<and> index st' = index st @ [(k, length (heap st))]
            \<and> map_of (index st') k = Some (length (heap st))
            \<and> dict_getitem st' k = (Inr (length (heap st)), st'))"
  using assms
  by (simp add: dict_getitem_def new_list_def dict_get_def defaultdict_getitem_def
      dict_setitem_def store_item_absent map_add_def)

theorem missing_key_handling_witness:
  "map_of (index \<lparr>index = [(''a'', 0)], heap = [[(1, 1)]]\<rparr>) ''new-key'' = None
   \<and> dict_getitem \<lparr>index = [(''a'', 0)], heap = [[(1, 1)]]\<rparr> ''new-key''
       = (Inl (KeyError (PStr ''new-key'')), \<lparr>index = [(''a'', 0)], heap = [[(1, 1)]]\<rparr>)
   \<and> defaultdict_getitem (Some new_list) \<lparr>index = [(''a'', 0)], heap = [[(1, 1)]]\<rparr> ''new-key''
       = (Inr 1, \<lparr>index = [(''a'', 0), (''new-key'', 1)], heap = [[(1, 1)], []]\<rparr>)"
  using missing_key_handling [of "\<lparr>index = [(''a'', 0)], heap = [[(1, 1)]]\<rparr>" "''new-key''"]
  by (simp add: defaultdict_getitem_def new_list_def dict_setitem_def)


section \<open>Every call returns\<close>

subsection \<open>The lookup of StrKeyDict\<close>

lemma lookup_run_missing_str:
  "is_str k \<Longrightarrow> lookup_run d (Missing k) = Some (Inl (KeyError k))"
  by (subst lookup_run.simps) simp

lemma lookup_run_getitem_str:
  "lookup_run d (GetItem (PStr s)) = Some (snd (StrKeyDict_getitem_run d (PStr s)))"
  by (subst lookup_run.simps, cases "data d (PStr s)")
    (simp_all add: getitem_run_hit getitem_run_str_miss lookup_run_missing_str)

lemma lookup_run_missing:
  "lookup_run d (Missing k) = Some (snd (StrKeyDict_missing_run d k))"
proof (cases "is_str k")
  case True
  then show ?thesis by (simp add: lookup_run_missing_str missing_run_str)
next
  case False
  then show ?thesis
    by (subst lookup_run.simps) (simp add: lookup_run_getitem_str missing_run_other)
qed

lemma lookup_run_getitem:
  "lookup_run d (GetItem k) = Some (StrKeyDict_getitem d k)"
  by (subst lookup_run.simps, cases "data d k")
    (simp_all add: StrKeyDict_getitem_def getitem_run_hit getitem_run_miss lookup_run_missing)

subsection \<open>Loops over lists\<close>

text \<open>
  A loop whose body returns on every element returns, with the result of \<open>for_each\<close>:
  by induction on the number of elements that are left.
\<close>

lemma for_run_for_each:
  assumes body: "\<And>st x. body_run st x = Some (body st x)"
  shows "i \<le> length xs \<Longrightarrow> for_run body_run xs i st = Some (for_each body st (drop i xs))"
proof (induction "length xs - i" arbitrary: i st)
  case 0
  then show ?case by (subst for_run.simps) simp
next
  case (Suc n)
  then have i: "i < length xs" by simp
  then have d: "drop i xs = xs ! i # drop (Suc i) xs"
    by (simp add: Cons_nth_drop_Suc)
  show ?case
  proof (cases "body st (xs ! i)")
    case (Inl e)
    with i d show ?thesis by (subst for_run.simps) (simp add: body)
  next
    case (Inr st')
    from Suc have "for_run body_run xs (Suc i) st' = Some (for_each body st' (drop (Suc i) xs))"
      by (intro Suc.hyps(1)) simp_all
    with Inr i d show ?thesis by (subst for_run.simps) (simp add: body)
  qed
qed

lemma print_run_print_loop:
  "i \<le> length ws \<Longrightarrow> print_run lookup ws i st = Some (print_loop lookup st (drop i ws))"
proof (induction "length ws - i" arbitrary: i st)
  case 0
  then show ?case by (subst print_run.simps) simp
next
  case (Suc n)
  then have i: "i < length ws" by simp
  then have d: "drop i ws = ws ! i # drop (Suc i) ws"
    by (simp add: Cons_nth_drop_Suc)
  obtain r st' where l: "lookup st (ws ! i) = (r, st')" by (cases "lookup st (ws ! i)")
  show ?case
  proof (cases r)
    case (Inl e)
    with i d l show ?thesis by (subst print_run.simps) simp
  next
    case (Inr a)
    from Suc have "print_run lookup ws (Suc i) st' = Some (print_loop lookup st' (drop (Suc i) ws))"
      by (intro Suc.hyps(1)) simp_all
    with Inr i d l show ?thesis
      by (subst print_run.simps) (simp split: prod.splits)
  qed
qed

lemma build_run_build: "build_run body fp = Some (build body fp)"
proof -
  have inner: "(case x of (line_no, line) \<Rightarrow>
            for_run (\<lambda>st match. Some (body st line_no match)) (finditer line) 0 st)
        = Some (case x of (line_no, line) \<Rightarrow>
            for_each (\<lambda>st match. body st line_no match) st (finditer line))"
    for st and x :: "nat \<times> string"
    by (cases x) (simp add: for_run_for_each [where body = "\<lambda>st match. body st _ match"])
  show ?thesis
    unfolding build_run_def build_def
    using for_run_for_each [where body_run = "\<lambda>st (line_no, line).
          for_run (\<lambda>st match. Some (body st line_no match)) (finditer line) 0 st"
        and body = "\<lambda>st (line_no, line).
          for_each (\<lambda>st match. body st line_no match) st (finditer line)"
        and i = 0 and xs = "enumerate fp 1" and st = initial, OF inner]
    by simp
qed

lemma script_run_script: "script_run body lookup fp = Some (script body lookup fp)"
  by (cases "build body fp")
    (simp_all add: script_run_def script_def build_run_build print_index_def print_run_print_loop)

lemma update_run_returns: "update_run d other = Some (Inr (update_pairs d other))"
proof -
  have "for_each (\<lambda>d (key, v). Inr (StrKeyDict_setitem d key v)) d other = Inr (update_pairs d other)"
    by (induction d other rule: update_pairs.induct) simp_all
  with for_run_for_each [where body = "\<lambda>d (key, v). Inr (StrKeyDict_setitem d key v)"
      and body_run = "\<lambda>d (key, v). Some (Inr (StrKeyDict_setitem d key v))" and i = 0 and xs = other and st = d]
  show ?thesis by (simp add: update_run_def case_prod_unfold)
qed

subsection \<open>The deck\<close>

lemma FrenchDeck_init_run_returns: "FrenchDeck_init_run = Some (Inr FrenchDeck_init)"
proof -
  have inner: "for_run (\<lambda>acc rank. Some (Inr (acc @ [\<lparr>rank = rank, suit = s\<rparr>]))) ranks 0 acc
      = Some (for_each (\<lambda>acc rank. Inr (acc @ [\<lparr>rank = rank, suit = s\<rparr>])) acc ranks)" for acc s
    using for_run_for_each [where body = "\<lambda>acc rank. Inr (acc @ [\<lparr>rank = rank, suit = s\<rparr>])"
        and i = 0 and xs = ranks] by simp
  have "for_run (\<lambda>acc suit.
              for_run (\<lambda>acc rank. Some (Inr (acc @ [\<lparr>rank = rank, suit = suit\<rparr>]))) ranks 0 acc)
            suits 0 []
      = Some (for_each (\<lambda>acc suit.
              for_each (\<lambda>acc rank. Inr (acc @ [\<lparr>rank = rank, suit = suit\<rparr>])) acc ranks) [] suits)"
    using for_run_for_each [where body = "\<lambda>acc suit.
              for_each (\<lambda>acc rank. Inr (acc @ [\<lparr>rank = rank, suit = suit\<rparr>])) acc ranks"
        and i = 0 and xs = suits, OF inner] by simp
  moreover have "for_each (\<lambda>acc suit.
              for_each (\<lambda>acc rank. Inr (acc @ [\<lparr>rank = rank, suit = suit\<rparr>])) acc ranks) [] suits
      = Inr (cards FrenchDeck_init)"
    by code_simp
  ultimately show ?thesis by (simp add: FrenchDeck_init_run_def)
qed

lemma deck_getitem_in:
  "0 \<le> i \<Longrightarrow> i < int (length (cards self)) \<Longrightarrow> fst (FrenchDeck_getitem self i) = Inr (cards self ! nat i)"
  by (simp add: FrenchDeck_getitem_def list_getitem_nonneg)

lemma deck_getitem_end:
  "int (length (cards self)) \<le> i \<Longrightarrow> fst (FrenchDeck_getitem self i) = Inl IndexError"
  by (simp add: FrenchDeck_getitem_def list_getitem_outside)

lemma iter_run_drop:
  "0 \<le> i \<Longrightarrow> i \<le> int (length (cards self)) \<Longrightarrow>
   iter_run self i = Some (Inr (drop (nat i) (cards self)))"
proof (induction "length (cards self) - nat i" arbitrary: i)
  case 0
  then have "i = int (length (cards self))" by simp
  then show ?case by (subst iter_run.simps) (simp add: deck_getitem_end)
next
  case (Suc n)
  then have i: "i < int (length (cards self))" by linarith
  with Suc.prems have d: "drop (nat i) (cards self) = cards self ! nat i # drop (nat (i + 1)) (cards self)"
    by (simp add: Cons_nth_drop_Suc nat_add_distrib)
  from Suc i have "iter_run self (i + 1) = Some (Inr (drop (nat (i + 1)) (cards self)))"
    by (intro Suc.hyps(1)) (simp_all add: nat_add_distrib)
  with Suc.prems i d show ?case
    by (subst iter_run.simps) (simp add: deck_getitem_in)
qed

lemma reversed_run_take:
  "- 1 \<le> i \<Longrightarrow> i < int (length (cards self)) \<Longrightarrow>
   reversed_run self i = Some (Inr (rev (take (nat (i + 1)) (cards self))))"
proof (induction "nat (i + 1)" arbitrary: i)
  case 0
  then have "i = - 1" by simp
  then show ?case by (subst reversed_run.simps) simp
next
  case (Suc n)
  then have i: "0 \<le> i" by linarith
  with Suc.prems have t: "take (nat (i + 1)) (cards self) = take (nat i) (cards self) @ [cards self ! nat i]"
    by (simp add: take_Suc_conv_app_nth nat_add_distrib)
  from Suc i have "reversed_run self (i - 1) = Some (Inr (rev (take (nat (i - 1 + 1)) (cards self))))"
    by (intro Suc.hyps(1)) simp_all
  with Suc.prems i t show ?case
    by (subst reversed_run.simps) (simp add: deck_getitem_in)
qed

lemma in_run_drop:
  "0 \<le> i \<Longrightarrow> i \<le> int (length (cards self)) \<Longrightarrow>
   in_run self x i = Some (Inr (x \<in> set (drop (nat i) (cards self))))"
proof (induction "length (cards self) - nat i" arbitrary: i)
  case 0
  then have "i = int (length (cards self))" by simp
  then show ?case by (subst in_run.simps) (simp add: deck_getitem_end)
next
  case (Suc n)
  then have i: "i < int (length (cards self))" by linarith
  with Suc.prems have d: "drop (nat i) (cards self) = cards self ! nat i # drop (nat (i + 1)) (cards self)"
    by (simp add: Cons_nth_drop_Suc nat_add_distrib)
  from Suc i have "in_run self x (i + 1) = Some (Inr (x \<in> set (drop (nat (i + 1)) (cards self))))"
    by (intro Suc.hyps(1)) (simp_all add: nat_add_distrib)
  with Suc.prems i d show ?case
    by (subst in_run.simps) (auto simp: deck_getitem_in)
qed

lemma index_run_list_index:
  "i \<le> length xs \<Longrightarrow>
   index_run xs v i = Some (map_option (\<lambda>j. j + i) (list_index (drop i xs) v))"
proof (induction "length xs - i" arbitrary: i)
  case 0
  then show ?case by (subst index_run.simps) simp
next
  case (Suc n)
  then have i: "i < length xs" by simp
  then have d: "drop i xs = xs ! i # drop (Suc i) xs"
    by (simp add: Cons_nth_drop_Suc)
  from Suc have "index_run xs v (Suc i) = Some (map_option (\<lambda>j. j + Suc i) (list_index (drop (Suc i) xs) v))"
    by (intro Suc.hyps(1)) simp_all
  with i d show ?case
    by (subst index_run.simps) (simp add: option.map_comp comp_def)
qed

lemma spades_high_run_returns: "spades_high_run c = Some (spades_high c)"
  by (cases "list_index ranks (rank c)")
    (simp_all add: spades_high_run_def spades_high_def index_run_list_index)

lemma deck_sorted_run_eq:
  "deck_sorted_run self =
     Some (case for_each (\<lambda>keys c. case spades_high c of Inl e \<Rightarrow> Inl e | Inr k \<Rightarrow> Inr (keys @ [k]))
                  [] (cards self) of
             Inl e \<Rightarrow> Inl e
           | Inr keys \<Rightarrow> Inr (map snd (sort_key fst (zip keys (cards self)))))"
proof -
  have it: "iter_run self 0 = Some (Inr (cards self))"
    using iter_run_drop [of 0 self] by simp
  have "for_run (\<lambda>keys c. case spades_high_run c of
                                      None \<Rightarrow> None
                                    | Some (Inl e) \<Rightarrow> Some (Inl e)
                                    | Some (Inr k) \<Rightarrow> Some (Inr (keys @ [k]))) (cards self) 0 []
      = Some (for_each (\<lambda>keys c. case spades_high c of Inl e \<Rightarrow> Inl e | Inr k \<Rightarrow> Inr (keys @ [k])) [] (cards self))"
    using for_run_for_each [where body = "\<lambda>keys c. case spades_high c of Inl e \<Rightarrow> Inl e | Inr k \<Rightarrow> Inr (keys @ [k])"
        and i = 0 and xs = "cards self"]
    by (simp add: spades_high_run_returns split: sum.splits)
  with it show ?thesis
    by (simp add: deck_sorted_run_def split: sum.splits)
qed

lemma sorted_deck_example:
  "map_option (map_sum id (map spades_high)) (deck_sorted_run FrenchDeck_init) = Some (Inr (map Inr [0..51]))"
  unfolding deck_sorted_run_eq by code_simp

subsection \<open>The comprehensions of Example 3-1\<close>

lemma country_code_run_eq:
  "country_code_run = Some (for_each (\<lambda>d (code, country). Inr (store_item d country code)) [] DIAL_CODES)"
  unfolding country_code_run_def
  using for_run_for_each [where body = "\<lambda>d (code, country). Inr (store_item d country code)"
      and body_run = "\<lambda>d (code, country). Some (Inr (store_item d country code))"
      and i = 0 and xs = DIAL_CODES and st = "[]"]
  by (simp add: case_prod_unfold)

lemma country_code_example:
  "country_code_run = Some (Inr [(''China'', 86), (''India'', 91), (''United States'', 1), (''Indonesia'', 62),
      (''Brazil'', 55), (''Pakistan'', 92), (''Bangladesh'', 880), (''Nigeria'', 234),
      (''Russia'', 7), (''Japan'', 81)])"
  unfolding country_code_run_eq by code_simp

lemma upper_codes_example:
  "upper_codes_run = Some (Inr [(1, ''UNITED STATES''), (62, ''INDONESIA''), (55, ''BRAZIL''), (7, ''RUSSIA'')])"
proof -
  have "for_run (\<lambda>d (country, code).
                     Some (Inr (if code < 66 then store_item d code (upper country) else d))) cc 0 []
      = Some (for_each (\<lambda>d (country, code).
                     Inr (if code < 66 then store_item d code (upper country) else d)) [] cc)"
    for cc :: "(string \<times> int) list"
    using for_run_for_each [where body = "\<lambda>d (country, code).
                     Inr (if code < 66 then store_item d code (upper country) else d)"
      and body_run = "\<lambda>d (country, code).
                     Some (Inr (if code < 66 then store_item d code (upper country) else d))"
      and i = 0 and xs = cc and st = "[]"]
    by (simp add: case_prod_unfold)
  moreover have "for_each (\<lambda>d (country, code).
                     Inr (if code < 66 then store_item d code (upper country) else d)) []
       [(''China'', 86), (''India'', 91), (''United States'', 1), (''Indonesia'', 62),
      (''Brazil'', 55), (''Pakistan'', 92), (''Bangladesh'', 880), (''Nigeria'', 234),
      (''Russia'', 7), (''Japan'', 81 :: int)]
     = Inr [(1, ''UNITED STATES''), (62, ''INDONESIA''), (55, ''BRAZIL''), (7, ''RUSSIA'')]"
    by code_simp
  ultimately show ?thesis
    by (simp add: upper_codes_run_def country_code_example)
qed


subsection \<open>All of them\<close>

text \<open>
  Claim C5. Every recursion and every loop of the notebooks returns, on every input:
  \<^item> a lookup \<open>d[k]\<close> in a StrKeyDict and a call of \<open>__missing__\<close>, with the result of
    the total functions; a lookup enters \<open>__getitem__\<close> at most twice and makes at most
    four calls, since \<open>__missing__\<close> raises at once on a string and indexes \<open>d\<close> exactly
    once more, with \<open>str(k)\<close>, on another key;
  \<^item> \<open>update\<close>, the construction of a deck, iterating over a deck forwards and in
    reverse, the membership scan of a deck, \<open>spades_high\<close> and sorting a deck with it;
  \<^item> \<open>abs\<close> and \<open>bool\<close> of a vector, whenever \<open>hypot\<close> returns on its components;
  \<^item> the two comprehensions of Example 3-1;
  \<^item> the three word-index scripts on every list of lines, with the output of the
    total functions.

  The methods that are left (\<open>__len__\<close> and \<open>__getitem__\<close> of the deck, \<open>__contains__\<close>
  and \<open>__setitem__\<close> of StrKeyDict, \<open>__init__\<close>, \<open>__add__\<close> and \<open>__mul__\<close> of Vector)
  have no loop and call no function of the notebooks.
\<close>

theorem every_call_returns:
  "lookup_run d (GetItem k) = Some (StrKeyDict_getitem d k)
   \<and> lookup_run d (Missing k) = Some (snd (StrKeyDict_missing_run d k))
   \<and> length (filter is_getitem (StrKeyDict_getitem_calls d k)) \<le> 2
   \<and> length (StrKeyDict_getitem_calls d k) \<le> 4
   \<and> (is_str k \<longrightarrow> fst (StrKeyDict_missing_run d k) = [Missing k])
   \<and> (\<not> is_str k \<longrightarrow>
        length (filter is_getitem (fst (StrKeyDict_missing_run d k))) = 1
        \<and> hd (tl (fst (StrKeyDict_missing_run d k))) = GetItem (PStr (py_str k)))
   \<and> update_run d other = Some (Inr (update_pairs d other))
   \<and> FrenchDeck_init_run = Some (Inr FrenchDeck_init)
   \<and> iter_run self 0 = Some (Inr (cards self))
   \<and> deck_reversed_run self = Some (Inr (rev (cards self)))
   \<and> in_run self x 0 = Some (Inr (x \<in> set (cards self)))
   \<and> spades_high_run c = Some (spades_high c)
   \<and> (\<exists>r. deck_sorted_run self = Some r)
   \<and> (hypot_run (Vector_x (store ! v)) (Vector_y (store ! v)) = Some h \<longrightarrow>
        Vector_abs_run hypot_run store v = Some (h, store)
        \<and> (\<exists>b. Vector_bool_run hypot_run store v = Some (b, store)))
   \<and> (\<exists>r. country_code_run = Some (Inr r))
   \<and> (\<exists>r. upper_codes_run = Some (Inr r))
   \<and> script_run body_get dict_getitem fp = Some (index_get fp)
   \<and> script_run body_setdefault dict_getitem fp = Some (index_setdefault fp)
   \<and> script_run body_defaultdict (defaultdict_getitem (Some new_list)) fp = Some (index_defaultdict fp)"
proof -
  have lookup: "lookup_run d (GetItem k) = Some (StrKeyDict_getitem d k)
      \<and> lookup_run d (Missing k) = Some (snd (StrKeyDict_missing_run d k))"
    by (simp add: lookup_run_getitem lookup_run_missing)
  note depth = lookup_depth [of d k]
  have deck: "iter_run self 0 = Some (Inr (cards self))
      \<and> deck_reversed_run self = Some (Inr (rev (cards self)))
      \<and> in_run self x 0 = Some (Inr (x \<in> set (cards self)))"
    using iter_run_drop [of 0 self] in_run_drop [of 0 self x]
      reversed_run_take [of "int (length (cards self)) - 1" self]
    by (simp add: deck_reversed_run_def FrenchDeck_len_def)
  have sorted: "\<exists>r. deck_sorted_run self = Some r"
    by (simp add: deck_sorted_run_eq)
  have vector: "hypot_run (Vector_x (store ! v)) (Vector_y (store ! v)) = Some h \<longrightarrow>
        Vector_abs_run hypot_run store v = Some (h, store)
        \<and> (\<exists>b. Vector_bool_run hypot_run store v = Some (b, store))"
    by (cases h) (simp_all add: Vector_abs_run_def Vector_bool_run_def)
  have comps: "(\<exists>r. country_code_run = Some (Inr r)) \<and> (\<exists>r. upper_codes_run = Some (Inr r))"
    by (simp add: country_code_example upper_codes_example)
  have scripts: "script_run body_get dict_getitem fp = Some (index_get fp)
      \<and> script_run body_setdefault dict_getitem fp = Some (index_setdefault fp)
      \<and> script_run body_defaultdict (defaultdict_getitem (Some new_list)) fp = Some (index_defaultdict fp)"
    by (simp add: script_run_script index_get_def index_setdefault_def index_defaultdict_def)
  from lookup depth deck sorted vector comps scripts show ?thesis
    by (simp add: update_run_returns FrenchDeck_init_run_returns spades_high_run_returns)
qed

text \<open>
  A lookup that raises after four calls, the new deck, \<open>Vector(3, 4)\<close> and a text of
  three lines.
\<close>

theorem every_call_returns_witness:
  "\<not> is_str (PInt 2)
   \<and> lookup_run \<lparr>data = [PStr ''1'' \<mapsto> (10::int)]\<rparr> (GetItem (PInt 2)) = Some (Inl (KeyError (PStr ''2'')))
   \<and> StrKeyDict_getitem_calls \<lparr>data = [PStr ''1'' \<mapsto> (10::int)]\<rparr> (PInt 2)
       = [GetItem (PInt 2), Missing (PInt 2), GetItem (PStr ''2''), Missing (PStr ''2'')]
   \<and> is_str (PStr ''2'')
   \<and> fst (StrKeyDict_missing_run \<lparr>data = [PStr ''1'' \<mapsto> (10::int)]\<rparr> (PStr ''2'')) = [Missing (PStr ''2'')]
   \<and> iter_run FrenchDeck_init 0 = Some (Inr (cards FrenchDeck_init))
   \<and> map_option (map_sum id (map spades_high)) (deck_sorted_run FrenchDeck_init) = Some (Inr (map Inr [0..51]))
   \<and> Some (hypot_exact (Vector_x ([\<lparr>Vector_x = 3, Vector_y = 4\<rparr>] ! 0)) (Vector_y ([\<lparr>Vector_x = 3, Vector_y = 4\<rparr>] ! 0)))
       = Some (Inr 5)
   \<and> Vector_abs_run (\<lambda>a b. Some (hypot_exact a b)) [\<lparr>Vector_x = 3, Vector_y = 4\<rparr>] 0
       = Some (Inr 5, [\<lparr>Vector_x = 3, Vector_y = 4\<rparr>])
   \<and> Vector_bool_run (\<lambda>a b. Some (hypot_exact a b)) [\<lparr>Vector_x = 3, Vector_y = 4\<rparr>] 0
       = Some (Inr True, [\<lparr>Vector_x = 3, Vector_y = 4\<rparr>])
   \<and> script_run body_defaultdict (defaultdict_getitem (Some new_list)) [''the cat The hat'', ''a the Cat'', ''THE b'']
       = Some ([''a [(2, 1)]'', ''b [(3, 5)]'', ''cat [(1, 5)]'', ''Cat [(2, 7)]'',
            ''hat [(1, 13)]'', ''the [(1, 1), (2, 3)]'', ''The [(1, 9)]'', ''THE [(3, 1)]''], None)"
proof -
  let ?d = "\<lparr>data = [PStr ''1'' \<mapsto> (10::int)]\<rparr>"
  let ?s = "[\<lparr>Vector_x = 3::int, Vector_y = 4\<rparr>]"
  let ?fp = "[''the cat The hat'', ''a the Cat'', ''THE b'']"
  note th2 = every_call_returns [where d = ?d and k = "PInt 2" and self = FrenchDeck_init
      and store = ?s and v = 0 and hypot_run = "\<lambda>a b. Some (hypot_exact a b)" and h = "Inr 5"
      and fp = ?fp]
  note ths = every_call_returns [where d = ?d and k = "PStr ''2''" and self = FrenchDeck_init
      and store = ?s and v = 0 and hypot_run = "\<lambda>a b. Some (hypot_exact a b)" and h = "Inr 5"
      and fp = ?fp]
  have calls: "StrKeyDict_getitem_calls ?d (PInt 2)
       = [GetItem (PInt 2), Missing (PInt 2), GetItem (PStr ''2''), Missing (PStr ''2'')]"
    by (simp add: StrKeyDict_getitem_calls_def StrKeyDict_getitem_run.simps
        StrKeyDict_missing_run.simps str_int_2)
  have get: "StrKeyDict_getitem ?d (PInt 2) = Inl (KeyError (PStr ''2''))"
    by (simp add: StrKeyDict_getitem_def StrKeyDict_getitem_run.simps
        StrKeyDict_missing_run.simps str_int_2)
  from th2 get have a: "lookup_run ?d (GetItem (PInt 2)) = Some (Inl (KeyError (PStr ''2'')))"
    by simp
  from ths have b: "fst (StrKeyDict_missing_run ?d (PStr ''2'')) = [Missing (PStr ''2'')]"
    by simp
  from th2 have c: "iter_run FrenchDeck_init 0 = Some (Inr (cards FrenchDeck_init))"
    by simp
  have hy: "Some (hypot_exact (Vector_x (?s ! 0)) (Vector_y (?s ! 0))) = Some (Inr 5)"
    by (simp add: hypot_exact_3_4)
  with th2 have v1: "Vector_abs_run (\<lambda>a b. Some (hypot_exact a b)) ?s 0 = Some (Inr 5, ?s)"
    by simp
  then have v2: "Vector_bool_run (\<lambda>a b. Some (hypot_exact a b)) ?s 0 = Some (Inr True, ?s)"
    by (simp add: Vector_bool_run_def)
  from th2 have sc: "script_run body_defaultdict (defaultdict_getitem (Some new_list)) ?fp
       = Some (index_defaultdict ?fp)"
    by simp
  from calls a b c hy v1 v2 sc show ?thesis
    by (simp add: sorted_deck_example index_defaultdict_example)
qed

end
